theory Spec2Isabelle
  imports Main
begin

section \<open>Python values, exceptions and the HTTP collaborator\<close>

text \<open>
  The scripts handle only values that \<^verbatim>\<open>json.loads\<close> produces or that are written as
  literals: \<^verbatim>\<open>None\<close>, booleans, integers, strings, lists and dictionaries with string
  keys. A dictionary is an association list read with \<^const>\<open>map_of\<close>. The texts
  that the scripts slice and measure are ASCII texts; JSON numbers are integers.
\<close>

datatype json =
    JNull
  | JBool bool
  | JNum int
  | JStr string
  | JList "json list"
  | JObj "(string \<times> json) list"

datatype exn_class =
    URLError | JSONDecodeError | UnicodeDecodeError
  | AttributeError | TypeError | KeyError | IndexError | ValueError

text \<open>
  The body of a response is what \<^verbatim>\<open>read()\<close> returns: bytes that
  \<^verbatim>\<open>.decode('utf-8')\<close> turns into text, or bytes on which it raises, with the text
  of the exception.
\<close>

datatype payload = Text string | Undecodable string string

fun bytes_of :: "payload \<Rightarrow> string" where
  "bytes_of (Text s) = s"
| "bytes_of (Undecodable bytes msg) = bytes"

text \<open>
  An exception carries its class and the text \<^verbatim>\<open>str(e)\<close>. \<^verbatim>\<open>urllib.error.HTTPError\<close>
  also carries \<^verbatim>\<open>e.code\<close> and the body that \<^verbatim>\<open>e.read()\<close> returns.
\<close>

datatype exn =
    Exn exn_class string
  | HTTPError nat string payload

fun str_exn :: "exn \<Rightarrow> string" where
  "str_exn (Exn c msg) = msg"
| "str_exn (HTTPError code msg p) = msg"

text \<open>
  \<^verbatim>\<open>urllib.request.urlopen\<close> returns a response (\<^verbatim>\<open>resp.status\<close>, \<^verbatim>\<open>resp.read()\<close>) for a
  2xx status and raises otherwise: \<^verbatim>\<open>HTTPError\<close> for any other status, another
  exception (\<^verbatim>\<open>URLError\<close>, a timeout) when the transport fails.
\<close>

datatype outcome = Response nat payload | Raised exn

text \<open>
  \<^verbatim>\<open>urllib.request.Request(url, data=req_data, headers=headers, method=method)\<close>.
  The field \<open>req_data\<close> holds the value whose \<^verbatim>\<open>json.dumps(...).encode('utf-8')\<close> is
  the body, and \<open>None\<close> when the request has no body.
\<close>

record request =
  req_url :: string
  req_data :: "json option"
  req_headers :: "(string \<times> string) list"
  req_method :: string
  req_timeout :: "nat option"

text \<open>
  What the scripts call and do not define: the server behind \<^verbatim>\<open>urlopen\<close>, a state
  transformer on a server state \<open>'s\<close>; \<^verbatim>\<open>json.loads\<close>; and the text that
  \<^verbatim>\<open>repr()\<close> gives for a list or a dictionary.
\<close>

record 's env =
  urlopen :: "request \<Rightarrow> 's \<Rightarrow> outcome \<times> 's"
  loads :: "string \<Rightarrow> exn + json"
  repr :: "json \<Rightarrow> string"

definition BASE_URL :: string where
  "BASE_URL = ''http://127.0.0.1:3141''"

fun decode :: "payload \<Rightarrow> exn + string" where
  "decode (Text s) = Inr s"
| "decode (Undecodable bytes msg) = Inl (Exn UnicodeDecodeError msg)"

text \<open>Truth value of a Python object, as \<^verbatim>\<open>if data\<close> and \<^verbatim>\<open>if parts:\<close> test it.\<close>

fun truthy :: "json \<Rightarrow> bool" where
  "truthy JNull = False"
| "truthy (JBool b) = b"
| "truthy (JNum n) = (n \<noteq> 0)"
| "truthy (JStr s) = (s \<noteq> [])"
| "truthy (JList xs) = (xs \<noteq> [])"
| "truthy (JObj kvs) = (kvs \<noteq> [])"

section \<open>Operations on Python values\<close>

text \<open>
  Python checks types when an operation runs; each operation below returns the
  exception that Python raises on a value of the wrong type.
\<close>

fun type_name :: "json \<Rightarrow> string" where
  "type_name JNull = ''NoneType''"
| "type_name (JBool b) = ''bool''"
| "type_name (JNum n) = ''int''"
| "type_name (JStr s) = ''str''"
| "type_name (JList xs) = ''list''"
| "type_name (JObj kvs) = ''dict''"

definition quoted :: "string \<Rightarrow> string" where
  "quoted s = CHR 0x27 # s @ [CHR 0x27]"

definition not_subscriptable :: "json \<Rightarrow> exn" where
  "not_subscriptable x = Exn TypeError (quoted (type_name x) @ '' object is not subscriptable'')"

definition no_attribute :: "json \<Rightarrow> string \<Rightarrow> exn" where
  "no_attribute x a =
     Exn AttributeError (quoted (type_name x) @ '' object has no attribute '' @ quoted a)"

text \<open>Decimal text of a number, as \<^verbatim>\<open>str(n)\<close> and an f-string give it.\<close>

definition digits :: string where
  "digits = ''0123456789''"

fun show_nat :: "nat \<Rightarrow> string" where
  "show_nat n =
     (if n < 10 then [digits ! n]
      else show_nat (n div 10) @ [digits ! (n mod 10)])"

definition show_int :: "int \<Rightarrow> string" where
  "show_int i = (if i < 0 then CHR ''-'' # show_nat (nat (- i)) else show_nat (nat i))"

text \<open>\<^verbatim>\<open>x.get(k, d)\<close>: only a dictionary has the method.\<close>

definition py_get :: "json \<Rightarrow> string \<Rightarrow> json \<Rightarrow> exn + json" where
  "py_get x k d =
     (case x of
        JObj kvs \<Rightarrow> Inr (case map_of kvs k of None \<Rightarrow> d | Some v \<Rightarrow> v)
      | _ \<Rightarrow> Inl (no_attribute x ''get''))"

text \<open>
  \<^verbatim>\<open>x[i]\<close> for an integer \<open>i\<close>; a negative index counts from the end. The keys of a
  decoded dictionary are strings, so an integer key is never present.
\<close>

definition position :: "nat \<Rightarrow> int \<Rightarrow> nat option" where
  "position len i =
     (if 0 \<le> i \<and> i < int len then Some (nat i)
      else if i < 0 \<and> - i \<le> int len then Some (nat (int len + i))
      else None)"

definition py_index :: "json \<Rightarrow> int \<Rightarrow> exn + json" where
  "py_index x i =
     (case x of
        JList xs \<Rightarrow>
          (case position (length xs) i of
             Some k \<Rightarrow> Inr (xs ! k)
           | None \<Rightarrow> Inl (Exn IndexError ''list index out of range''))
      | JStr cs \<Rightarrow>
          (case position (length cs) i of
             Some k \<Rightarrow> Inr (JStr [cs ! k])
           | None \<Rightarrow> Inl (Exn IndexError ''string index out of range''))
      | JObj kvs \<Rightarrow> Inl (Exn KeyError (show_int i))
      | _ \<Rightarrow> Inl (not_subscriptable x))"

text \<open>\<^verbatim>\<open>x[k]\<close> for a string \<open>k\<close>.\<close>

definition py_item :: "json \<Rightarrow> string \<Rightarrow> exn + json" where
  "py_item x k =
     (case x of
        JObj kvs \<Rightarrow>
          (case map_of kvs k of
             None \<Rightarrow> Inl (Exn KeyError (quoted k))
           | Some v \<Rightarrow> Inr v)
      | JList xs \<Rightarrow> Inl (Exn TypeError ''list indices must be integers or slices, not str'')
      | JStr cs \<Rightarrow> Inl (Exn TypeError (''string indices must be integers, not '' @ quoted ''str''))
      | _ \<Rightarrow> Inl (not_subscriptable x))"

text \<open>
  \<^verbatim>\<open>x[:n]\<close>. A dictionary raises (\<^verbatim>\<open>TypeError\<close> up to Python 3.11, where a slice is
  not hashable).
\<close>

definition py_slice :: "json \<Rightarrow> nat \<Rightarrow> exn + json" where
  "py_slice x n =
     (case x of
        JStr cs \<Rightarrow> Inr (JStr (take n cs))
      | JList xs \<Rightarrow> Inr (JList (take n xs))
      | JObj kvs \<Rightarrow> Inl (Exn TypeError (''unhashable type: '' @ quoted ''slice''))
      | _ \<Rightarrow> Inl (not_subscriptable x))"

definition lower_char :: "char \<Rightarrow> char" where
  "lower_char c =
     (case map_of (zip ''ABCDEFGHIJKLMNOPQRSTUVWXYZ'' ''abcdefghijklmnopqrstuvwxyz'') c of
        None \<Rightarrow> c
      | Some l \<Rightarrow> l)"

text \<open>\<^verbatim>\<open>x.lower()\<close>\<close>

definition py_lower :: "json \<Rightarrow> exn + json" where
  "py_lower x =
     (case x of
        JStr cs \<Rightarrow> Inr (JStr (map lower_char cs))
      | _ \<Rightarrow> Inl (no_attribute x ''lower''))"

text \<open>\<^verbatim>\<open>sub in s\<close> on strings: \<open>sub\<close> occurs in \<open>s\<close> as a contiguous part.\<close>

fun contains :: "string \<Rightarrow> string \<Rightarrow> bool" where
  "contains sub [] = (sub = [])"
| "contains sub (c # cs) = (take (length sub) (c # cs) = sub \<or> contains sub cs)"

text \<open>
  \<^verbatim>\<open>k in x\<close> for a string \<open>k\<close>: a part of a string, an element of a list, a key of a
  dictionary.
\<close>

definition py_in :: "string \<Rightarrow> json \<Rightarrow> exn + bool" where
  "py_in k x =
     (case x of
        JStr cs \<Rightarrow> Inr (contains k cs)
      | JList xs \<Rightarrow> Inr (JStr k \<in> set xs)
      | JObj kvs \<Rightarrow> Inr (k \<in> set (map fst kvs))
      | _ \<Rightarrow> Inl (Exn TypeError (''argument of type '' @ quoted (type_name x) @ '' is not iterable'')))"

text \<open>\<^verbatim>\<open>isinstance(x, list)\<close>, and \<^verbatim>\<open>isinstance(x, list) and len(x) > 0\<close>.\<close>

fun is_list :: "json \<Rightarrow> bool" where
  "is_list (JList xs) = True"
| "is_list x = False"

fun nonempty_list :: "json \<Rightarrow> bool" where
  "nonempty_list (JList xs) = (xs \<noteq> [])"
| "nonempty_list x = False"

text \<open>Sequencing: an exception ends the computation, the server state is threaded.\<close>

definition sum_bind :: "exn + 'a \<Rightarrow> ('a \<Rightarrow> exn + 'b) \<Rightarrow> exn + 'b" where
  "sum_bind m f = (case m of Inl e \<Rightarrow> Inl e | Inr a \<Rightarrow> f a)"

definition io_bind ::
  "('s \<Rightarrow> (exn + 'a) \<times> 's) \<Rightarrow> ('a \<Rightarrow> 's \<Rightarrow> (exn + 'b) \<times> 's) \<Rightarrow> 's \<Rightarrow> (exn + 'b) \<times> 's" where
  "io_bind m f s = (case m s of (Inl e, s') \<Rightarrow> (Inl e, s') | (Inr a, s') \<Rightarrow> f a s')"

definition io_pure :: "exn + 'a \<Rightarrow> 's \<Rightarrow> (exn + 'a) \<times> 's" where
  "io_pure r s = (r, s)"

text \<open>
  \<^verbatim>\<open>str(x)\<close>, which is also what an f-string inserts for \<^verbatim>\<open>{x}\<close>.
\<close>

definition py_str :: "'s env \<Rightarrow> json \<Rightarrow> string" where
  "py_str E x =
     (case x of
        JNull \<Rightarrow> ''None''
      | JBool b \<Rightarrow> (if b then ''True'' else ''False'')
      | JNum n \<Rightarrow> show_int n
      | JStr cs \<Rightarrow> cs
      | _ \<Rightarrow> repr E x)"

text \<open>\<^verbatim>\<open>len(x)\<close>\<close>

definition py_len :: "json \<Rightarrow> exn + nat" where
  "py_len x =
     (case x of
        JStr cs \<Rightarrow> Inr (length cs)
      | JList xs \<Rightarrow> Inr (length xs)
      | JObj kvs \<Rightarrow> Inr (length kvs)
      | _ \<Rightarrow> Inl (Exn TypeError (''object of type '' @ quoted (type_name x) @ '' has no len()'')))"

section \<open>The request helpers\<close>

text \<open>
  \<^verbatim>\<open>req_data = json.dumps(data).encode('utf-8') if data else None\<close>: the argument
  \<^verbatim>\<open>data=None\<close> is \<open>None\<close> here.
\<close>

definition build_request :: "string \<Rightarrow> string \<Rightarrow> json option \<Rightarrow> nat option \<Rightarrow> request" where
  "build_request path method data tmo =
     \<lparr> req_url = BASE_URL @ path,
       req_data = (case data of
                     None \<Rightarrow> None
                   | Some d \<Rightarrow> if truthy d then Some d else None),
       req_headers = [(''Content-Type'', ''application/json'')],
       req_method = method,
       req_timeout = tmo \<rparr>"

text \<open>\<^verbatim>\<open>json.loads(body) if body else {}\<close>\<close>

definition parse_body :: "'s env \<Rightarrow> string \<Rightarrow> exn + json" where
  "parse_body E body = (if body \<noteq> [] then loads E body else Inr (JObj []))"

definition error_obj :: "exn \<Rightarrow> json" where
  "error_obj e = JObj [(''error'', JStr (str_exn e))]"

text \<open>
  \<^verbatim>\<open>make_request\<close> of test_adk.py, test_assistants.py, tests/test_sessions.py (timeout
  fixed to 120) and tests/google_adk/test_complex_agents.py (timeout a parameter with
  default 120); the four bodies are otherwise the same text.

  The first handler catches \<^verbatim>\<open>HTTPError\<close>; what is raised inside that handler is not
  caught by the second one and leaves the function. The second handler catches every
  other exception of the \<^verbatim>\<open>try\<close> body, those of \<^verbatim>\<open>decode\<close> and \<^verbatim>\<open>json.loads\<close> too.
\<close>

definition make_request ::
  "'s env \<Rightarrow> string \<Rightarrow> string \<Rightarrow> json option \<Rightarrow> nat \<Rightarrow> 's \<Rightarrow> (exn + nat \<times> json) \<times> 's" where
  "make_request E path method data tmo s =
     (case urlopen E (build_request path method data (Some tmo)) s of
        (Response status p, s') \<Rightarrow>
          (case decode p of
             Inl e \<Rightarrow> (Inr (0, error_obj e), s')
           | Inr body \<Rightarrow>
               (case parse_body E body of
                  Inl e \<Rightarrow> (Inr (0, error_obj e), s')
                | Inr v \<Rightarrow> (Inr (status, v), s')))
      | (Raised (HTTPError code msg p), s') \<Rightarrow>
          (case decode p of
             Inl e \<Rightarrow> (Inl e, s')
           | Inr body \<Rightarrow>
               (case parse_body E body of
                  Inl e \<Rightarrow> (Inl e, s')
                | Inr v \<Rightarrow> (Inr (code, v), s')))
      | (Raised e, s') \<Rightarrow> (Inr (0, error_obj e), s'))"

text \<open>
  \<^verbatim>\<open>req\<close> of tests/test_thread_isolation.py: no \<^verbatim>\<open>try\<close>, no test for an empty body,
  and only the decoded body is returned.
\<close>

definition req :: "'s env \<Rightarrow> string \<Rightarrow> string \<Rightarrow> json option \<Rightarrow> 's \<Rightarrow> (exn + json) \<times> 's" where
  "req E path method data s =
     (case urlopen E (build_request path method data (Some 120)) s of
        (Response status p, s') \<Rightarrow>
          (case decode p of
             Inl e \<Rightarrow> (Inl e, s')
           | Inr body \<Rightarrow> (loads E body, s'))
      | (Raised e, s') \<Rightarrow> (Inl e, s'))"

section \<open>The test scripts\<close>

text \<open>The body of a \<^verbatim>\<open>/run\<close> request, as each script writes it.\<close>

definition run_payload :: "string \<Rightarrow> string \<Rightarrow> string \<Rightarrow> string \<Rightarrow> json" where
  "run_payload app_name user_id session_id message =
     JObj [(''app_name'', JStr app_name),
           (''user_id'', JStr user_id),
           (''session_id'', JStr session_id),
           (''new_message'',
              JObj [(''parts'', JList [JObj [(''text'', JStr message)]]),
                    (''role'', JStr ''user'')])]"

subsection \<open>test_adk.py\<close>

text \<open>
  \<^verbatim>\<open>test_run\<close>. The printed lines are not modelled, the expressions they evaluate
  are: \<^verbatim>\<open>event.get(...)\<close> and \<^verbatim>\<open>parts[0].get('text', '')[:200]\<close> can raise.
\<close>

definition test_run :: "'s env \<Rightarrow> 's \<Rightarrow> (exn + bool) \<times> 's" where
  "test_run E =
     io_bind (make_request E ''/run'' ''POST''
                (Some (run_payload ''vscode-lm-proxy'' ''python-test-user'' ''python-test-session''
                         ''What is 2+2? Answer with just the number.'')) 120)
       (\<lambda>(status, events). io_pure
          (if status = 200 \<and> nonempty_list events then
             sum_bind (py_index events 0) (\<lambda>event.
             sum_bind (py_get event ''id'' JNull) (\<lambda>_.
             sum_bind (py_get event ''invocation_id'' JNull) (\<lambda>_.
             sum_bind (py_get event ''author'' JNull) (\<lambda>_.
             sum_bind (py_get event ''content'' (JObj [])) (\<lambda>content.
             sum_bind (py_get content ''parts'' (JList [])) (\<lambda>parts.
             sum_bind (if truthy parts then
                         sum_bind (py_index parts 0) (\<lambda>part.
                         sum_bind (py_get part ''text'' (JStr [])) (\<lambda>text.
                         sum_bind (py_slice text 200) (\<lambda>_. Inr ())))
                       else Inr ()) (\<lambda>_.
             Inr True)))))))
           else Inr False))"

text \<open>
  The DELETE call of \<^verbatim>\<open>test_sessions\<close>: \<^verbatim>\<open>Request(url, method="DELETE")\<close> and
  \<^verbatim>\<open>urlopen(req)\<close> with a handler for \<^verbatim>\<open>HTTPError\<close> only.
\<close>

definition delete_request :: "string \<Rightarrow> request" where
  "delete_request u =
     \<lparr> req_url = u, req_data = None, req_headers = [], req_method = ''DELETE'',
       req_timeout = None \<rparr>"

definition test_sessions :: "'s env \<Rightarrow> 's \<Rightarrow> (exn + bool) \<times> 's" where
  "test_sessions E =
     io_bind (make_request E ''/apps/test-app/users/py-user/sessions'' ''POST'' None 120)
       (\<lambda>(status, session).
     io_bind (io_pure (py_get session ''id'' (JStr ''N/A''))) (\<lambda>_.
     if status \<noteq> 201 then io_pure (Inr False)
     else
     io_bind (io_pure (py_get session ''id'' JNull)) (\<lambda>session_id.
     io_bind (make_request E ''/apps/test-app/users/py-user/sessions'' ''GET'' None 120)
       (\<lambda>(status, sessions).
     io_bind (make_request E (''/apps/test-app/users/py-user/sessions/'' @ py_str E session_id)
                ''GET'' None 120)
       (\<lambda>(status, _).
     (\<lambda>s. case urlopen E (delete_request
                  (BASE_URL @ ''/apps/test-app/users/py-user/sessions/'' @ py_str E session_id)) s of
             (Response st p, s') \<Rightarrow> (Inr True, s')
           | (Raised (HTTPError code msg p), s') \<Rightarrow> (Inr (code = 204), s')
           | (Raised e, s') \<Rightarrow> (Inl e, s')))))))"

subsection \<open>tests/test_sessions.py\<close>

definition run_turn :: "'s env \<Rightarrow> string \<Rightarrow> string \<Rightarrow> nat \<Rightarrow> 's \<Rightarrow> (exn + json) \<times> 's" where
  "run_turn E session_id message turn_num =
     io_bind (make_request E ''/run'' ''POST''
                (Some (run_payload ''test-agent'' ''test-user'' session_id message)) 120)
       (\<lambda>(status, events). io_pure
          (if status = 200 \<and> nonempty_list events then
             sum_bind (py_index events 0) (\<lambda>event.
             sum_bind (py_get event ''content'' (JObj [])) (\<lambda>content.
             sum_bind (py_get content ''parts'' (JList [])) (\<lambda>parts.
             if truthy parts then
               sum_bind (py_index parts 0) (\<lambda>part.
               sum_bind (py_get part ''text'' (JStr [])) (\<lambda>text.
               py_slice text 150))
             else Inr (JStr (''ERROR: '' @ py_str E events)))))
           else Inr (JStr (''ERROR: '' @ py_str E events))))"

text \<open>
  \<^verbatim>\<open>session_a_ok = "30" in a2 or "60" in a2\<close>,
  \<^verbatim>\<open>session_b_ok = "blue" in b1.lower() or "green" in b2.lower()\<close> and
  \<^verbatim>\<open>return session_a_ok and session_b_ok\<close>; \<^verbatim>\<open>or\<close> evaluates its second operand only
  when the first is false.
\<close>

definition isolation_check :: "json \<Rightarrow> json \<Rightarrow> json \<Rightarrow> exn + bool" where
  "isolation_check a2 b1 b2 =
     sum_bind (sum_bind (py_in ''30'' a2) (\<lambda>found. if found then Inr True else py_in ''60'' a2))
       (\<lambda>session_a_ok.
     sum_bind (sum_bind (py_lower b1) (\<lambda>low1.
               sum_bind (py_in ''blue'' low1) (\<lambda>found.
               if found then Inr True
               else sum_bind (py_lower b2) (\<lambda>low2. py_in ''green'' low2))))
       (\<lambda>session_b_ok.
     Inr (session_a_ok \<and> session_b_ok)))"

text \<open>
  \<^verbatim>\<open>test_session_isolation\<close>; the two results of \<^verbatim>\<open>random.randint(1000, 9999)\<close> are
  the arguments \<open>ra\<close> and \<open>rb\<close>.
\<close>

definition test_session_isolation :: "'s env \<Rightarrow> nat \<Rightarrow> nat \<Rightarrow> 's \<Rightarrow> (exn + bool) \<times> 's" where
  "test_session_isolation E ra rb =
     (let session_a = ''session_A_'' @ show_nat ra;
          session_b = ''session_B_'' @ show_nat rb
      in
      io_bind (run_turn E session_a ''What is 10 + 20? Just give the number.'' 1) (\<lambda>a1.
      io_bind (run_turn E session_b ''What color is the sky on a clear day? One word.'' 1) (\<lambda>b1.
      io_bind (run_turn E session_a ''Double that result.'' 2) (\<lambda>a2.
      io_bind (run_turn E session_b ''And what about grass? One word.'' 2) (\<lambda>b2.
      io_bind (run_turn E session_a ''What was the original number before doubling?'' 3) (\<lambda>a3.
      io_bind (run_turn E session_b ''What was the first color I asked about?'' 3) (\<lambda>b3.
      io_pure (isolation_check a2 b1 b2))))))))"

text \<open>
  \<^verbatim>\<open>test_session_api\<close>: the loop that creates the sessions. A session id is appended
  when the status is 201; the line printed then slices \<^verbatim>\<open>session.get('id', 'N/A')\<close>.
\<close>

fun create_sessions :: "'s env \<Rightarrow> nat \<Rightarrow> json list \<Rightarrow> 's \<Rightarrow> (exn + json list) \<times> 's" where
  "create_sessions E 0 created_ids s = (Inr created_ids, s)"
| "create_sessions E (Suc n) created_ids s =
     (case make_request E ''/apps/test-app/users/api-test/sessions'' ''POST'' None 120 s of
        (Inl e, s') \<Rightarrow> (Inl e, s')
      | (Inr (status, session), s') \<Rightarrow>
          if status = 201 then
            (case sum_bind (py_get session ''id'' JNull) (\<lambda>session_id.
                  sum_bind (py_get session ''id'' (JStr ''N/A'')) (\<lambda>shown.
                  sum_bind (py_slice shown 30) (\<lambda>_. Inr session_id))) of
               Inl e \<Rightarrow> (Inl e, s')
             | Inr session_id \<Rightarrow> create_sessions E n (created_ids @ [session_id]) s')
          else create_sessions E n created_ids s')"

text \<open>
  The loop that deletes them: \<^verbatim>\<open>urlopen\<close> under \<^verbatim>\<open>except: pass\<close>, so neither the
  status nor an exception of a DELETE call is looked at.
\<close>

fun delete_sessions :: "'s env \<Rightarrow> json list \<Rightarrow> 's \<Rightarrow> 's" where
  "delete_sessions E [] s = s"
| "delete_sessions E (session_id # ids) s =
     delete_sessions E ids
       (snd (urlopen E (delete_request
               (BASE_URL @ ''/apps/test-app/users/api-test/sessions/'' @ py_str E session_id)) s))"

definition test_session_api :: "'s env \<Rightarrow> 's \<Rightarrow> (exn + bool) \<times> 's" where
  "test_session_api E =
     io_bind (make_request E ''/apps/test-app/users/api-test/sessions'' ''GET'' None 120)
       (\<lambda>(status, sessions_before).
     io_bind (create_sessions E 3 []) (\<lambda>created_ids.
     io_bind (make_request E ''/apps/test-app/users/api-test/sessions'' ''GET'' None 120)
       (\<lambda>(status, sessions_after).
     io_bind (\<lambda>s. (Inr (), delete_sessions E created_ids s)) (\<lambda>_.
     io_bind (make_request E ''/apps/test-app/users/api-test/sessions'' ''GET'' None 120)
       (\<lambda>(status, sessions_final).
     io_pure (Inr (length created_ids = 3)))))))"

subsection \<open>tests/test_agent.py\<close>

text \<open>
  One round of the loop of \<^verbatim>\<open>run_conversation\<close>: the result is what the round appends
  to \<^verbatim>\<open>responses\<close>. Every exception of the \<^verbatim>\<open>try\<close> body, \<^verbatim>\<open>HTTPError\<close> included, is
  caught and appended as \<^verbatim>\<open>f"ERROR: {e}"\<close>.
\<close>

definition conversation_turn :: "'s env \<Rightarrow> string \<Rightarrow> string \<Rightarrow> 's \<Rightarrow> json list \<times> 's" where
  "conversation_turn E session_id message s =
     (case urlopen E
             \<lparr> req_url = BASE_URL @ ''/run'',
               req_data = Some (run_payload ''math-agent'' ''test-user'' session_id message),
               req_headers = [(''Content-Type'', ''application/json'')],
               req_method = ''POST'',
               req_timeout = Some 120 \<rparr> s of
        (Response status p, s') \<Rightarrow>
          (case sum_bind (decode p) (\<lambda>body.
                sum_bind (loads E body) (\<lambda>events.
                if truthy events \<and> is_list events then
                  sum_bind (py_index events 0) (\<lambda>event.
                  sum_bind (py_get event ''content'' (JObj [])) (\<lambda>content.
                  sum_bind (py_get content ''parts'' (JList [])) (\<lambda>parts.
                  if truthy parts then
                    sum_bind (py_index parts 0) (\<lambda>part.
                    sum_bind (py_get part ''text'' (JStr [])) (\<lambda>response_text.
                    sum_bind (py_slice response_text 200) (\<lambda>_.
                    Inr [response_text])))
                  else Inr [])))
                else Inr [])) of
             Inl e \<Rightarrow> ([JStr (''ERROR: '' @ str_exn e)], s')
           | Inr appended \<Rightarrow> (appended, s'))
      | (Raised e, s') \<Rightarrow> ([JStr (''ERROR: '' @ str_exn e)], s'))"

fun conversation_loop ::
  "'s env \<Rightarrow> string \<Rightarrow> string list \<Rightarrow> json list \<Rightarrow> 's \<Rightarrow> json list \<times> 's" where
  "conversation_loop E session_id [] responses s = (responses, s)"
| "conversation_loop E session_id (message # messages) responses s =
     (case conversation_turn E session_id message s of
        (appended, s') \<Rightarrow> conversation_loop E session_id messages (responses @ appended) s')"

text \<open>
  \<^verbatim>\<open>run_conversation\<close>; \<open>ident\<close> is the number \<^verbatim>\<open>id(messages)\<close>.
\<close>

definition run_conversation :: "'s env \<Rightarrow> nat \<Rightarrow> string list \<Rightarrow> 's \<Rightarrow> json list \<times> 's" where
  "run_conversation E ident messages s =
     conversation_loop E (''session_'' @ show_nat ident) messages [] s"

definition multi_turn_messages :: "string list" where
  "multi_turn_messages =
     [''What is 5 + 3?'',
      ''Now multiply that result by 2.'',
      ''What was the original sum again?'',
      ''And what's the final answer after multiplication?'']"

definition test_multi_turn :: "'s env \<Rightarrow> nat \<Rightarrow> 's \<Rightarrow> bool \<times> 's" where
  "test_multi_turn E ident s =
     (case run_conversation E ident multi_turn_messages s of
        (responses, s') \<Rightarrow> (length responses = length multi_turn_messages, s'))"

subsection \<open>tests/test_thread_isolation.py\<close>

text \<open>\<^verbatim>\<open>msgs['data'][-1]['content'][0]['text']['value']\<close>\<close>

definition last_value :: "json \<Rightarrow> exn + json" where
  "last_value msgs =
     sum_bind (py_item msgs ''data'') (\<lambda>data.
     sum_bind (py_index data (- 1)) (\<lambda>message.
     sum_bind (py_item message ''content'') (\<lambda>content.
     sum_bind (py_index content 0) (\<lambda>part.
     sum_bind (py_item part ''text'') (\<lambda>text.
     py_item text ''value'')))))"

text \<open>
  \<^verbatim>\<open>t = req("/v1/threads", "POST", {})\<close> and the line that prints \<^verbatim>\<open>t['id'][:25]\<close>.
\<close>

definition new_thread :: "'s env \<Rightarrow> 's \<Rightarrow> (exn + json) \<times> 's" where
  "new_thread E =
     io_bind (req E ''/v1/threads'' ''POST'' (Some (JObj []))) (\<lambda>t.
     io_bind (io_pure (sum_bind (py_item t ''id'') (\<lambda>i. py_slice i 25))) (\<lambda>_.
     io_pure (Inr t)))"

text \<open>
  The four lines that the script writes for each question: post the message, start a
  run, read the messages, print the first 50 characters of the last one. Each f-string
  evaluates \<^verbatim>\<open>t['id']\<close>.
\<close>

definition thread_path :: "'s env \<Rightarrow> json \<Rightarrow> string \<Rightarrow> exn + string" where
  "thread_path E t suffix =
     sum_bind (py_item t ''id'') (\<lambda>i. Inr (''/v1/threads/'' @ py_str E i @ suffix))"

definition exchange :: "'s env \<Rightarrow> json \<Rightarrow> string \<Rightarrow> 's \<Rightarrow> (exn + json) \<times> 's" where
  "exchange E t question =
     io_bind (io_pure (thread_path E t ''/messages'')) (\<lambda>path.
     io_bind (req E path ''POST''
                (Some (JObj [(''role'', JStr ''user''), (''content'', JStr question)]))) (\<lambda>_.
     io_bind (io_pure (thread_path E t ''/runs'')) (\<lambda>path.
     io_bind (req E path ''POST'' (Some (JObj [(''assistant_id'', JStr ''asst_default'')]))) (\<lambda>_.
     io_bind (io_pure (thread_path E t ''/messages'')) (\<lambda>path.
     io_bind (req E path ''GET'' None) (\<lambda>msgs.
     io_bind (io_pure (sum_bind (last_value msgs) (\<lambda>v. py_slice v 50))) (\<lambda>_.
     io_pure (Inr msgs))))))))"

text \<open>
  \<^verbatim>\<open>a_ok = "300" in a2_text or "three hundred" in a2_text\<close>,
  \<^verbatim>\<open>b_ok = "green" in b2_text\<close>, on the lowered last messages of the two threads.
\<close>

definition thread_check :: "json \<Rightarrow> json \<Rightarrow> exn + bool" where
  "thread_check msgs1 msgs2 =
     sum_bind (sum_bind (last_value msgs1) py_lower) (\<lambda>a2_text.
     sum_bind (sum_bind (last_value msgs2) py_lower) (\<lambda>b2_text.
     sum_bind (sum_bind (py_in ''300'' a2_text) (\<lambda>found.
               if found then Inr True else py_in ''three hundred'' a2_text)) (\<lambda>a_ok.
     sum_bind (py_in ''green'' b2_text) (\<lambda>b_ok.
     Inr (a_ok \<and> b_ok)))))"

text \<open>
  The script, from its first request to the value of \<^verbatim>\<open>a_ok and b_ok\<close> that chooses
  its last line.
\<close>

definition thread_isolation :: "'s env \<Rightarrow> 's \<Rightarrow> (exn + bool) \<times> 's" where
  "thread_isolation E =
     io_bind (new_thread E) (\<lambda>t1.
     io_bind (exchange E t1 ''What is 100 + 50?'') (\<lambda>msgs1.
     io_bind (new_thread E) (\<lambda>t2.
     io_bind (exchange E t2 ''What color is snow?'') (\<lambda>msgs2.
     io_bind (exchange E t1 ''Double it'') (\<lambda>msgs1.
     io_bind (exchange E t2 ''And grass?'') (\<lambda>msgs2.
     io_pure (thread_check msgs1 msgs2)))))))"

subsection \<open>The streaming consumers\<close>

definition newline :: char where
  "newline = CHR 0x0A"

text \<open>
  \<^verbatim>\<open>line, buffer = buffer.split('\n\n', 1)\<close> under the loop condition
  \<^verbatim>\<open>'\n\n' in buffer\<close>: the text before the first blank line and the text after it,
  and \<open>None\<close> when the buffer has no blank line.
\<close>

fun split_event :: "string \<Rightarrow> (string \<times> string) option" where
  "split_event (a # b # cs) =
     (if a = newline \<and> b = newline then Some ([], cs)
      else (case split_event (b # cs) of
              None \<Rightarrow> None
            | Some (line, rest) \<Rightarrow> Some (a # line, rest)))"
| "split_event cs = None"

text \<open>
  The body of the inner loop of \<^verbatim>\<open>test_sse_streaming\<close> for one event, on the variables
  \<^verbatim>\<open>chunk_count\<close> and \<^verbatim>\<open>final_text\<close>. The result holds the exception that the body
  raises, if any, and the variables as the body leaves them: \<^verbatim>\<open>chunk_count\<close> is
  incremented before \<^verbatim>\<open>event.get\<close> is evaluated. On \<^verbatim>\<open>[DONE]\<close> the body prints a
  line and does nothing else.
\<close>

definition on_event :: "'s env \<Rightarrow> string \<Rightarrow> nat \<times> json \<Rightarrow> exn option \<times> nat \<times> json" where
  "on_event E line vars =
     (case vars of (chunk_count, final_text) \<Rightarrow>
        if take 6 line = ''data: '' then
          (let data = drop 6 line in
           if data = ''[DONE]'' then (None, chunk_count, final_text)
           else
             (case loads E data of
                Inl e \<Rightarrow> (Some e, chunk_count, final_text)
              | Inr event \<Rightarrow>
                  (case sum_bind (py_get event ''content'' (JObj []))
                          (\<lambda>content. py_get content ''parts'' (JList [])) of
                     Inl e \<Rightarrow> (Some e, chunk_count + 1, final_text)
                   | Inr parts \<Rightarrow>
                       if truthy parts then
                         (case sum_bind (py_index parts 0)
                                 (\<lambda>part. py_get part ''text'' (JStr [])) of
                            Inl e \<Rightarrow> (Some e, chunk_count + 1, final_text)
                          | Inr text \<Rightarrow>
                              (case py_len text of
                                 Inl e \<Rightarrow> (Some e, chunk_count + 1, text)
                               | Inr n \<Rightarrow> (None, chunk_count + 1, text)))
                       else (None, chunk_count + 1, final_text))))
        else (None, chunk_count, final_text))"

text \<open>
  The inner loop \<^verbatim>\<open>while '\n\n' in buffer\<close>: it ends when the buffer holds no complete
  event, or with the exception of an event; the result also holds the buffer left.
\<close>

function drain ::
  "'s env \<Rightarrow> string \<Rightarrow> nat \<times> json \<Rightarrow> exn option \<times> string \<times> nat \<times> json" where
  "drain E buffer vars =
     (case split_event buffer of
        None \<Rightarrow> (None, buffer, vars)
      | Some (line, rest) \<Rightarrow>
          (case on_event E line vars of
             (Some e, vars') \<Rightarrow> (Some e, rest, vars')
           | (None, vars') \<Rightarrow> drain E rest vars'))"
  by pat_completeness auto

lemma split_event_shorter:
  "split_event buffer = Some (line, rest) \<Longrightarrow> length rest < length buffer"
  by (induction buffer arbitrary: line rule: split_event.induct)
     (auto split: if_splits option.splits)

termination drain
  by (relation "measure (\<lambda>(E, buffer, vars). length buffer)")
     (auto dest: split_event_shorter)

text \<open>
  \<^verbatim>\<open>.decode('utf-8')\<close> on the bytes of one read: whether the bytes are well-formed
  UTF-8, as the strict decoder of Python decides it (no overlong form, no surrogate,
  nothing above U+10FFFF). A text is kept as the bytes of its UTF-8 encoding; the
  consumer only looks for ASCII patterns in it, and no byte of a longer sequence is an
  ASCII byte.
\<close>

definition byte :: "char \<Rightarrow> nat" where
  "byte c = of_char c"

definition continuation :: "char \<Rightarrow> bool" where
  "continuation c = (128 \<le> byte c \<and> byte c < 192)"

definition second_of_three :: "nat \<Rightarrow> char \<Rightarrow> bool" where
  "second_of_three lead c =
     (if lead = 224 then 160 \<le> byte c \<and> byte c < 192
      else if lead = 237 then 128 \<le> byte c \<and> byte c < 160
      else continuation c)"

definition second_of_four :: "nat \<Rightarrow> char \<Rightarrow> bool" where
  "second_of_four lead c =
     (if lead = 240 then 144 \<le> byte c \<and> byte c < 192
      else if lead = 244 then 128 \<le> byte c \<and> byte c < 144
      else continuation c)"

fun utf8 :: "string \<Rightarrow> bool" where
  "utf8 [] = True"
| "utf8 (a # bs) =
     (if byte a < 128 then utf8 bs
      else if 194 \<le> byte a \<and> byte a < 224 then
        (case bs of
           b # rest \<Rightarrow> continuation b \<and> utf8 rest
         | _ \<Rightarrow> False)
      else if 224 \<le> byte a \<and> byte a < 240 then
        (case bs of
           b # c # rest \<Rightarrow> second_of_three (byte a) b \<and> continuation c \<and> utf8 rest
         | _ \<Rightarrow> False)
      else if 240 \<le> byte a \<and> byte a < 245 then
        (case bs of
           b # c # d # rest \<Rightarrow>
             second_of_four (byte a) b \<and> continuation c \<and> continuation d \<and> utf8 rest
         | _ \<Rightarrow> False)
      else False)"

text \<open>
  The outer loop \<^verbatim>\<open>while True\<close> over the results of \<^verbatim>\<open>resp.read(256)\<close>, each decoded
  on its own: an empty chunk or the end of the stream ends it, and so does an
  exception (of the decoding, or of an event), which the \<^verbatim>\<open>except Exception\<close> around
  the loop catches. The result is the pair of \<^verbatim>\<open>chunk_count\<close> and \<^verbatim>\<open>final_text\<close>.
\<close>

fun consume :: "'s env \<Rightarrow> string list \<Rightarrow> string \<Rightarrow> nat \<times> json \<Rightarrow> nat \<times> json" where
  "consume E [] buffer vars = vars"
| "consume E (bytes # later) buffer vars =
     (if \<not> utf8 bytes then vars
      else if bytes = [] then vars
      else
        (case drain E (buffer @ bytes) vars of
           (Some e, buffer', vars') \<Rightarrow> vars'
         | (None, buffer', vars') \<Rightarrow> consume E later buffer' vars'))"

text \<open>
  What the successive calls of \<^verbatim>\<open>resp.read(256)\<close> return for a body: its pieces of 256
  bytes.
\<close>

fun pieces :: "string \<Rightarrow> string list" where
  "pieces body = (if body = [] then [] else take 256 body # pieces (drop 256 body))"

definition reads :: "payload \<Rightarrow> string list" where
  "reads p = pieces (bytes_of p)"

text \<open>
  \<^verbatim>\<open>test_sse_streaming\<close> of tests/test_agent.py. After the \<^verbatim>\<open>try\<close> statement it prints
  \<^verbatim>\<open>final_text[:100]\<close>, which can raise, and returns \<^verbatim>\<open>chunk_count > 0\<close>.
\<close>

definition test_sse_streaming :: "'s env \<Rightarrow> 's \<Rightarrow> (exn + bool) \<times> 's" where
  "test_sse_streaming E s =
     (case urlopen E
             \<lparr> req_url = BASE_URL @ ''/run_sse'',
               req_data = Some (run_payload ''streaming-test'' ''test-user'' ''sse-test-session''
                                  ''Count from 1 to 5, one number per line.''),
               req_headers = [(''Content-Type'', ''application/json'')],
               req_method = ''POST'',
               req_timeout = Some 120 \<rparr> s of
        (Response status p, s') \<Rightarrow>
          (case consume E (reads p) [] (0, JStr []) of
             (chunk_count, final_text) \<Rightarrow>
               (sum_bind (py_slice final_text 100) (\<lambda>_. Inr (0 < chunk_count)), s'))
      | (Raised e, s') \<Rightarrow>
          (sum_bind (py_slice (JStr []) 100) (\<lambda>_. Inr (0 < (0::nat))), s'))"

text \<open>
  The loop of \<^verbatim>\<open>send_with_image_streaming\<close> of examples/adk_image_example.py over the
  lines that \<^verbatim>\<open>response.iter_lines()\<close> yields: the result is the list of the payloads
  it prints. On \<^verbatim>\<open>[DONE]\<close> it leaves the loop.
\<close>

fun print_stream :: "string list \<Rightarrow> string list" where
  "print_stream [] = []"
| "print_stream (line # lines) =
     (if line \<noteq> [] \<and> take 6 line = ''data: '' then
        (let data = drop 6 line in
         if data = ''[DONE]'' then [] else data # print_stream lines)
      else print_stream lines)"

subsection \<open>tests/google_adk/test_complex_agents.py\<close>

text \<open>
  The score of \<^verbatim>\<open>test_loop_agent\<close>:
  \<^verbatim>\<open>int(''.join(filter(str.isdigit, score_response[:5])))\<close>, clamped by
  \<^verbatim>\<open>min(max(score, 1), 10)\<close>, and 5 when the \<^verbatim>\<open>try\<close> body raises.

  The response is a Python \<^verbatim>\<open>str\<close>, here the list of the numbers of its code points.
  What \<^verbatim>\<open>str.isdigit\<close> and \<^verbatim>\<open>int\<close> read in the Unicode character database is a
  parameter: whether a character is a digit (decimal digits, but also superscripts and
  other digit characters), and the value of a character that is a decimal digit.
\<close>

record unicode =
  is_digit :: "nat \<Rightarrow> bool"
  decimal :: "nat \<Rightarrow> nat option"

text \<open>
  \<^verbatim>\<open>int(s)\<close> on a text of digit characters only (no sign, space or underscore passes the
  filter): the number that the characters spell when the text is not empty and each
  character is a decimal digit, \<^verbatim>\<open>ValueError\<close> (here \<open>None\<close>) otherwise.
\<close>

fun spelled :: "unicode \<Rightarrow> nat list \<Rightarrow> int \<Rightarrow> int option" where
  "spelled U [] n = Some n"
| "spelled U (c # cs) n =
     (case decimal U c of
        None \<Rightarrow> None
      | Some d \<Rightarrow> spelled U cs (10 * n + int d))"

definition py_int :: "unicode \<Rightarrow> nat list \<Rightarrow> int option" where
  "py_int U ds = (if ds = [] then None else spelled U ds 0)"

definition extract_score :: "unicode \<Rightarrow> nat list \<Rightarrow> int" where
  "extract_score U score_response =
     (case py_int U (filter (is_digit U) (take 5 score_response)) of
        None \<Rightarrow> 5
      | Some score \<Rightarrow> min (max score 1) 10)"

section \<open>Scripted collaborators for concrete runs\<close>

text \<open>
  A server that answers from a script, one outcome per request whatever the request is,
  and refuses the connection once the script is used up.
\<close>

definition refused :: exn where
  "refused = Exn URLError ''<urlopen error [Errno 111] Connection refused>''"

fun replay :: "request \<Rightarrow> outcome list \<Rightarrow> outcome \<times> outcome list" where
  "replay r [] = (Raised refused, [])"
| "replay r (x # xs) = (x, xs)"

text \<open>
  A decoder given by the table of the texts it accepts; every other text is rejected
  with the message \<^verbatim>\<open>json.loads\<close> gives when no JSON value starts at the first
  character.
\<close>

definition no_value :: exn where
  "no_value = Exn JSONDecodeError ''Expecting value: line 1 column 1 (char 0)''"

definition loads_table :: "(string \<times> json) list \<Rightarrow> string \<Rightarrow> exn + json" where
  "loads_table tbl s = (case map_of tbl s of None \<Rightarrow> Inl no_value | Some v \<Rightarrow> Inr v)"

definition scripted :: "(string \<times> json) list \<Rightarrow> outcome list env" where
  "scripted tbl = \<lparr> urlopen = replay, loads = loads_table tbl, repr = (\<lambda>v. ''...'') \<rparr>"

definition ok :: "string \<Rightarrow> outcome" where
  "ok body = Response 200 (Text body)"

text \<open>
  The body \<^verbatim>\<open>[{"content": {"parts": [{"text": "t"}]}}]\<close> of a \<^verbatim>\<open>/run\<close> response and
  the value \<^verbatim>\<open>json.loads\<close> decodes from it, for a text \<open>t\<close> without quotes, backslashes
  and control characters.
\<close>

definition text_body :: "string \<Rightarrow> string" where
  \<open>text_body t = ''[{"content": {"parts": [{"text": "'' @ t @ ''"}]}}]''\<close>

definition text_event :: "string \<Rightarrow> json" where
  "text_event t =
     JList [JObj [(''content'', JObj [(''parts'', JList [JObj [(''text'', JStr t)]])])]]"

text \<open>A server that answers the requests with the given texts, in order.\<close>

definition answers :: "string list \<Rightarrow> outcome list env" where
  "answers ts = scripted (map (\<lambda>t. (text_body t, text_event t)) ts)"

definition replies :: "string list \<Rightarrow> outcome list" where
  "replies ts = map (\<lambda>t. ok (text_body t)) ts"

text \<open>
  The bodies \<^verbatim>\<open>{"id": "i"}\<close> of a created thread or session and
  \<^verbatim>\<open>{"data": [{"content": [{"text": {"value": "t"}}]}]}\<close> of a message list, with the
  values decoded from them.
\<close>

definition id_body :: "string \<Rightarrow> string" where
  \<open>id_body i = ''{"id": "'' @ i @ ''"}''\<close>

definition id_value :: "string \<Rightarrow> json" where
  "id_value i = JObj [(''id'', JStr i)]"

definition messages_body :: "string \<Rightarrow> string" where
  \<open>messages_body t = ''{"data": [{"content": [{"text": {"value": "'' @ t @ ''"}}]}]}''\<close>

definition messages_value :: "string \<Rightarrow> json" where
  "messages_value t =
     JObj [(''data'',
            JList [JObj [(''content'', JList [JObj [(''text'', JObj [(''value'', JStr t)])]])]])]"

definition thread_table :: "(string \<times> json) list" where
  "thread_table =
     [(''{}'', JObj []),
      (id_body ''thread_A'', id_value ''thread_A''),
      (id_body ''thread_B'', id_value ''thread_B''),
      (messages_body ''150'', messages_value ''150''),
      (messages_body ''White'', messages_value ''White''),
      (messages_body ''300'', messages_value ''300''),
      (messages_body ''Green'', messages_value ''Green'')]"

definition thread_run :: "outcome list" where
  "thread_run =
     [ok (id_body ''thread_A''), ok ''{}'', ok ''{}'', ok (messages_body ''150''),
      ok (id_body ''thread_B''), ok ''{}'', ok ''{}'', ok (messages_body ''White''),
      ok ''{}'', ok ''{}'', ok (messages_body ''300''),
      ok ''{}'', ok ''{}'', ok (messages_body ''Green'')]"

text \<open>Answers of the session endpoints: an empty list, a list of three entries, created sessions.\<close>

definition api_table :: "(string \<times> json) list" where
  "api_table =
     [(''[]'', JList []),
      (''[{}, {}, {}]'', JList [JObj [], JObj [], JObj []]),
      (id_body ''s1'', id_value ''s1''),
      (id_body ''s2'', id_value ''s2''),
      (id_body ''s3'', id_value ''s3'')]"

definition server_error :: outcome where
  "server_error = Raised (HTTPError 500 ''HTTP Error 500: Internal Server Error'' (Text []))"

text \<open>
  A run of \<^verbatim>\<open>test_session_api\<close> against a server that keeps the lifecycle: no session
  before, three created with status 201, three listed, three deleted with status 204,
  none at the end.
\<close>

definition api_run :: "outcome list" where
  "api_run =
     [ok ''[]'',
      Response 201 (Text (id_body ''s1'')),
      Response 201 (Text (id_body ''s2'')),
      Response 201 (Text (id_body ''s3'')),
      ok ''[{}, {}, {}]'',
      Response 204 (Text []), Response 204 (Text []), Response 204 (Text []),
      ok ''[]'']"

text \<open>
  A run against a server that does not: the list after the creations is still empty,
  every DELETE is answered with status 500, and the last list has three entries.
\<close>

definition careless_run :: "outcome list" where
  "careless_run =
     [ok ''[]'',
      Response 201 (Text (id_body ''s1'')),
      Response 201 (Text (id_body ''s2'')),
      Response 201 (Text (id_body ''s3'')),
      ok ''[]'',
      server_error, server_error, server_error,
      ok ''[{}, {}, {}]'']"

text \<open>A run of \<^verbatim>\<open>test_sessions\<close> of test_adk.py: create, list, get, delete.\<close>

definition adk_run :: "outcome list" where
  "adk_run =
     [Response 201 (Text (id_body ''s1'')),
      ok ''[{}, {}, {}]'',
      ok (id_body ''s1''),
      Response 204 (Text [])]"

text \<open>
  A stream in which an event follows the sentinel:
  \<^verbatim>\<open>data: [DONE]\<close>, a blank line, \<^verbatim>\<open>data: {}\<close>, a blank line.
\<close>

definition late_stream :: string where
  "late_stream = ''data: [DONE]'' @ [newline, newline] @ ''data: {}'' @ [newline, newline]"

text \<open>
  A 404 answer with a plain text as body, and a body that is not UTF-8 (the byte FF)
  with the text of the exception that decoding it raises.
\<close>

definition not_found :: outcome where
  "not_found = Raised (HTTPError 404 ''HTTP Error 404: Not Found'' (Text ''Not Found''))"

definition not_utf8_message :: string where
  "not_utf8_message =
     quoted ''utf-8'' @ '' codec can't decode byte 0xff in position 0: invalid start byte''"

definition not_utf8 :: payload where
  "not_utf8 = Undecodable [CHR 0xFF] not_utf8_message"

text \<open>
  The Unicode character database on the code points below 256: the digit characters
  are \<^verbatim>\<open>0\<close> to \<^verbatim>\<open>9\<close> and the superscripts two, three and one (178, 179, 185); only the
  first ten are decimal digits.
\<close>

definition latin1 :: unicode where
  "latin1 =
     \<lparr> is_digit = (\<lambda>c. (48 \<le> c \<and> c \<le> 57) \<or> c = 178 \<or> c = 179 \<or> c = 185),
       decimal = (\<lambda>c. if 48 \<le> c \<and> c \<le> 57 then Some (c - 48) else None) \<rparr>"

text \<open>The code points of an ASCII text.\<close>

definition codes :: "string \<Rightarrow> nat list" where
  "codes s = map of_char s"

section \<open>Predicates of the statements\<close>

text \<open>
  When the lines that \<^verbatim>\<open>test_run\<close> prints about the first event can be evaluated: the
  event is a dictionary, its \<^verbatim>\<open>content\<close> (default \<^verbatim>\<open>{}\<close>) is a dictionary, and the
  \<^verbatim>\<open>parts\<close> of the content (default \<^verbatim>\<open>[]\<close>) are either false as a condition or a list
  whose first element is a dictionary with a \<^verbatim>\<open>text\<close> (default \<^verbatim>\<open>''\<close>) that can be
  sliced.
\<close>

fun sliceable :: "json \<Rightarrow> bool" where
  "sliceable (JStr cs) = True"
| "sliceable (JList xs) = True"
| "sliceable x = False"

definition get_or :: "json \<Rightarrow> string \<Rightarrow> json \<Rightarrow> json option" where
  "get_or x k d =
     (case x of
        JObj kvs \<Rightarrow> Some (case map_of kvs k of None \<Rightarrow> d | Some v \<Rightarrow> v)
      | _ \<Rightarrow> None)"

definition first_text :: "json \<Rightarrow> json option" where
  "first_text parts =
     (case parts of JList (part # rest) \<Rightarrow> get_or part ''text'' (JStr []) | _ \<Rightarrow> None)"

definition event_shown :: "json \<Rightarrow> bool" where
  "event_shown event =
     (case get_or event ''content'' (JObj []) of
        None \<Rightarrow> False
      | Some content \<Rightarrow>
          (case get_or content ''parts'' (JList []) of
             None \<Rightarrow> False
           | Some parts \<Rightarrow>
               if truthy parts then
                 (case first_text parts of None \<Rightarrow> False | Some text \<Rightarrow> sliceable text)
               else True))"

text \<open>
  The outcomes of a DELETE call that \<^verbatim>\<open>test_sessions\<close> of test_adk.py handles (a response,
  or \<^verbatim>\<open>HTTPError\<close>), and those among them for which it returns \<^verbatim>\<open>True\<close>.
\<close>

fun completed :: "outcome \<Rightarrow> bool" where
  "completed (Response st p) = True"
| "completed (Raised (HTTPError code msg p)) = True"
| "completed (Raised (Exn c msg)) = False"

fun deleted :: "outcome \<Rightarrow> bool" where
  "deleted (Response st p) = True"
| "deleted (Raised (HTTPError code msg p)) = (code = 204)"
| "deleted (Raised (Exn c msg)) = False"

text \<open>
  What \<^verbatim>\<open>test_session_api\<close> does with a session created with status 201:
  \<^verbatim>\<open>session.get('id')\<close> is the id it keeps, and the line it prints can be evaluated when
  the session is a dictionary and \<^verbatim>\<open>session.get('id', 'N/A')\<close> can be sliced. The ids
  kept by the creation loop are those of the answers with status 201.
\<close>

definition id_of :: "json \<Rightarrow> json" where
  "id_of session = (case get_or session ''id'' JNull of None \<Rightarrow> JNull | Some v \<Rightarrow> v)"

definition id_shown :: "json \<Rightarrow> bool" where
  "id_shown session =
     (case get_or session ''id'' (JStr ''N/A'') of None \<Rightarrow> False | Some v \<Rightarrow> sliceable v)"

definition created :: "(nat \<times> json) list \<Rightarrow> json list" where
  "created rs = map (\<lambda>r. id_of (snd r)) (filter (\<lambda>r. fst r = 201) rs)"

text \<open>
  The lifecycle criterion of the specification, on what a run observes: the number of
  sessions listed before the creations, after them and at the end, the statuses of the
  creations and the statuses of the deletions.
\<close>

definition lifecycle :: "nat \<Rightarrow> nat \<Rightarrow> nat \<Rightarrow> nat list \<Rightarrow> nat list \<Rightarrow> bool" where
  "lifecycle before after final creations deletions =
     (after = before + length creations
      \<and> list_all (\<lambda>c. c = 201) creations
      \<and> list_all (\<lambda>d. d = 204) deletions
      \<and> final = before)"

section \<open>Properties of the request helpers\<close>

text \<open>
  C9. A call of \<^verbatim>\<open>make_request\<close> with \<^verbatim>\<open>data={}\<close> builds the request that
  \<^verbatim>\<open>data=None\<close> builds: the request has no body, and the two calls do the same. In
  particular \<^verbatim>\<open>make_request("/v1/threads", "POST", {})\<close> is a POST without a body.
\<close>

theorem empty_mapping_sends_no_body:
  "req_data (build_request path method (Some (JObj [])) tmo) = None
   \<and> build_request path method (Some (JObj [])) tmo = build_request path method None tmo
   \<and> make_request E path method (Some (JObj [])) t s = make_request E path method None t s
   \<and> req_method (build_request ''/v1/threads'' ''POST'' (Some (JObj [])) tmo) = ''POST''
   \<and> req_data (build_request ''/v1/threads'' ''POST'' (Some (JObj [])) tmo) = None"
  by (simp add: build_request_def make_request_def)

text \<open>
  C8, as the code has it. When the HTTP call completes, with a 2xx status (\<^verbatim>\<open>urlopen\<close>
  returns) or with another status (\<^verbatim>\<open>urlopen\<close> raises \<^verbatim>\<open>HTTPError\<close>), \<^verbatim>\<open>make_request\<close>
  returns the status code paired with the empty dictionary when the body is empty, and
  paired with the decoded value when the body is not empty and \<^verbatim>\<open>json.loads\<close> decodes
  it. When the body of a 2xx response is not UTF-8 or is not JSON, the pair is status 0
  with \<^verbatim>\<open>{"error": str(e)}\<close>. The timeout is arbitrary, so the statement covers the four
  copies of the function.
\<close>

theorem completed_call_result:
  assumes "urlopen E (build_request path method data (Some tmo)) s = (Response st p, s')
         \<or> urlopen E (build_request path method data (Some tmo)) s
              = (Raised (HTTPError st msg p), s')"
  shows "(decode p = Inr [] \<longrightarrow> make_request E path method data tmo s = (Inr (st, JObj []), s'))
       \<and> (\<forall>body v. decode p = Inr body \<and> body \<noteq> [] \<and> loads E body = Inr v
              \<longrightarrow> make_request E path method data tmo s = (Inr (st, v), s'))
       \<and> (\<forall>body e. urlopen E (build_request path method data (Some tmo)) s = (Response st p, s')
              \<and> (decode p = Inl e \<or> decode p = Inr body \<and> body \<noteq> [] \<and> loads E body = Inl e)
              \<longrightarrow> make_request E path method data tmo s
                    = (Inr (0, JObj [(''error'', JStr (str_exn e))]), s'))"
  using assms by (auto simp: make_request_def parse_body_def error_obj_def)

theorem completed_call_result_witness:
  "make_request (scripted [(''[1]'', JList [JNum 1])]) ''/list-apps'' ''GET'' None 120
        [ok ''[1]''] = (Inr (200, JList [JNum 1]), [])
   \<and> make_request (scripted []) ''/apps/test-app/users/py-user/sessions/s1'' ''DELETE'' None 120
        [Response 204 (Text [])] = (Inr (204, JObj []), [])
   \<and> make_request (scripted []) ''/health'' ''GET'' None 120 [Response 200 not_utf8]
        = (Inr (0, JObj [(''error'', JStr (str_exn (Exn UnicodeDecodeError not_utf8_message)))]),
           [])"
  using completed_call_result
    [of "scripted [(''[1]'', JList [JNum 1])]" "''/list-apps''" "''GET''" None 120
        "[ok ''[1]'']" 200 "Text ''[1]''" "[]"]
    completed_call_result
    [of "scripted []" "''/apps/test-app/users/py-user/sessions/s1''" "''DELETE''" None 120
        "[Response 204 (Text [])]" 204 "Text []" "[]"]
    completed_call_result
    [of "scripted []" "''/health''" "''GET''" None 120 "[Response 200 not_utf8]" 200
        not_utf8 "[]"]
  by (simp add: scripted_def loads_table_def ok_def not_utf8_def)

text \<open>
  C8 as stated fails: the call that completes with status 200 and body \<^verbatim>\<open>OK\<close> returns
  status 0, not 200, and the call that completes with status 404 and body
  \<^verbatim>\<open>Not Found\<close> returns no pair: the exception of \<^verbatim>\<open>json.loads\<close> leaves \<^verbatim>\<open>make_request\<close>.
\<close>

theorem completed_call_loses_status:
  "make_request (scripted []) ''/health'' ''GET'' None 120 [ok ''OK'']
     = (Inr (0, JObj [(''error'', JStr ''Expecting value: line 1 column 1 (char 0)'')]), [])
   \<and> make_request (scripted []) ''/v1/threads/thread_0'' ''GET'' None 120 [not_found]
     = (Inl (Exn JSONDecodeError ''Expecting value: line 1 column 1 (char 0)''), [])"
  by (simp add: make_request_def parse_body_def error_obj_def scripted_def ok_def
      loads_table_def no_value_def build_request_def not_found_def)

text \<open>
  C2, as the code has it. When \<^verbatim>\<open>urlopen\<close> raises an exception other than
  \<^verbatim>\<open>HTTPError\<close> (connection refused, timeout, DNS failure), \<^verbatim>\<open>make_request\<close> does not
  raise: it returns status 0 paired with \<^verbatim>\<open>{"error": str(e)}\<close>. \<^verbatim>\<open>req\<close> of
  tests/test_thread_isolation.py has no handler and raises the same exception.
\<close>

theorem transport_failure_handling:
  "(urlopen E (build_request path method data (Some tmo)) s = (Raised (Exn c msg), s')
      \<longrightarrow> make_request E path method data tmo s
            = (Inr (0, JObj [(''error'', JStr msg)]), s'))
   \<and> (urlopen E (build_request path method data (Some 120)) s = (Raised (Exn c msg), s')
      \<longrightarrow> req E path method data s = (Inl (Exn c msg), s'))"
  by (simp add: make_request_def req_def error_obj_def)

theorem transport_failure_handling_witness:
  "urlopen (scripted []) (build_request ''/health'' ''GET'' None (Some 120)) []
     = (Raised (Exn URLError ''<urlopen error [Errno 111] Connection refused>''), [])
   \<and> make_request (scripted []) ''/health'' ''GET'' None 120 []
     = (Inr (0, JObj [(''error'', JStr ''<urlopen error [Errno 111] Connection refused>'')]), [])
   \<and> req (scripted []) ''/health'' ''GET'' None []
     = (Inl (Exn URLError ''<urlopen error [Errno 111] Connection refused>''), [])"
  using transport_failure_handling
    [of "scripted []" "''/health''" "''GET''" None 120 "[]" URLError
        "''<urlopen error [Errno 111] Connection refused>''" "[]"]
  by (simp add: scripted_def refused_def)

text \<open>
  C2 as stated fails for \<^verbatim>\<open>req\<close>: with the server down, the first call of the thread
  isolation script, \<^verbatim>\<open>req("/v1/threads", "POST", {})\<close>, raises instead of returning
  status 0 with an error description.
\<close>

theorem req_raises_on_refused_connection:
  "req (scripted []) ''/v1/threads'' ''POST'' (Some (JObj [])) []
     = (Inl (Exn URLError ''<urlopen error [Errno 111] Connection refused>''), [])"
  by (simp add: req_def scripted_def refused_def)

text \<open>
  C3, as the code has it. When a 2xx response has a body that is not empty and that
  \<^verbatim>\<open>json.loads\<close> rejects, \<^verbatim>\<open>make_request\<close> does not raise and does not return the
  text of the body: the second handler catches the decoder's exception, and the result
  is status 0 paired with \<^verbatim>\<open>{"error": str(e)}\<close>.
\<close>

theorem non_json_body_reported_as_error:
  assumes "urlopen E (build_request path method data (Some tmo)) s = (Response st (Text body), s')"
    and "body \<noteq> []"
    and "loads E body = Inl e"
  shows "make_request E path method data tmo s
           = (Inr (0, JObj [(''error'', JStr (str_exn e))]), s')"
  using assms by (simp add: make_request_def parse_body_def error_obj_def)

theorem non_json_body_reported_as_error_witness:
  "urlopen (scripted []) (build_request ''/health'' ''GET'' None (Some 120))
       [Response 200 (Text ''<html>'')] = (Response 200 (Text ''<html>''), [])
   \<and> ''<html>'' \<noteq> []
   \<and> loads (scripted []) ''<html>''
       = Inl (Exn JSONDecodeError ''Expecting value: line 1 column 1 (char 0)'')
   \<and> make_request (scripted []) ''/health'' ''GET'' None 120 [Response 200 (Text ''<html>'')]
       = (Inr (0, JObj [(''error'', JStr ''Expecting value: line 1 column 1 (char 0)'')]), [])"
  using non_json_body_reported_as_error
    [of "scripted []" "''/health''" "''GET''" None 120 "[Response 200 (Text ''<html>'')]"
        200 "''<html>''" "[]" "Exn JSONDecodeError ''Expecting value: line 1 column 1 (char 0)''"]
  by (simp add: scripted_def loads_table_def no_value_def)

text \<open>
  C3 as stated fails: for the 2xx response with body \<^verbatim>\<open><html>\<close> the caller receives
  status 0 and an error dictionary, not status 200 and not the text of the body.
\<close>

theorem raw_text_not_returned:
  "make_request (scripted []) ''/health'' ''GET'' None 120 [Response 200 (Text ''<html>'')]
     = (Inr (0, JObj [(''error'', JStr ''Expecting value: line 1 column 1 (char 0)'')]), [])
   \<and> fst (make_request (scripted []) ''/health'' ''GET'' None 120
            [Response 200 (Text ''<html>'')]) \<noteq> Inr (200, JStr ''<html>'')"
  by (simp add: make_request_def parse_body_def error_obj_def scripted_def
      loads_table_def no_value_def build_request_def)

text \<open>
  The same body under a status that is not 2xx: the decoder's exception is raised
  inside the \<^verbatim>\<open>HTTPError\<close> handler and leaves \<^verbatim>\<open>make_request\<close>.
\<close>

lemma non_json_error_body_raises:
  assumes "urlopen E (build_request path method data (Some tmo)) s
             = (Raised (HTTPError code msg (Text body)), s')"
    and "body \<noteq> []"
    and "loads E body = Inl e"
  shows "make_request E path method data tmo s = (Inl e, s')"
  using assms by (simp add: make_request_def parse_body_def)

section \<open>Sequencing and the operations on values\<close>

lemma sum_bind_Inr [simp]: "sum_bind (Inr a) f = f a"
  by (simp add: sum_bind_def)

lemma sum_bind_Inl [simp]: "sum_bind (Inl e) f = Inl e"
  by (simp add: sum_bind_def)

lemma sum_bind_eq_Inr: "sum_bind m f = Inr r \<longleftrightarrow> (\<exists>a. m = Inr a \<and> f a = Inr r)"
  by (cases m) simp_all

lemma io_bind_Inr: "m s = (Inr a, s') \<Longrightarrow> io_bind m f s = f a s'"
  by (simp add: io_bind_def)

lemma py_get_eq_Inr: "py_get x k d = Inr v \<longleftrightarrow> get_or x k d = Some v"
  by (cases x) (auto simp: py_get_def get_or_def)

lemma py_slice_eq_Inr: "(\<exists>v. py_slice t n = Inr v) \<longleftrightarrow> sliceable t"
  by (cases t) (auto simp: py_slice_def)

lemma py_index_first: "py_index (JList (x # xs)) 0 = Inr x"
  by (simp add: py_index_def position_def)

lemma nonempty_list_iff: "nonempty_list x \<longleftrightarrow> (\<exists>e r. x = JList (e # r))"
  by (cases x) (auto simp: neq_Nil_conv)

lemma first_part_text:
  "(\<exists>part. py_index parts 0 = Inr part \<and> py_get part ''text'' (JStr []) = Inr text)
     \<longleftrightarrow> first_text parts = Some text"
proof (cases parts)
  case (JList xs)
  then show ?thesis
    by (cases xs) (simp_all add: py_index_def position_def first_text_def py_get_eq_Inr)
next
  case (JStr cs)
  then show ?thesis
    by (cases cs) (simp_all add: py_index_def position_def first_text_def py_get_def)
qed (simp_all add: py_index_def first_text_def not_subscriptable_def)

section \<open>The scripted collaborators\<close>

lemma urlopen_answers: "urlopen (answers ts) = replay"
  by (simp add: answers_def scripted_def)

lemma text_body_nonempty: "text_body t \<noteq> []"
  by (simp add: text_body_def)

lemma text_body_inject: "text_body t = text_body u \<longleftrightarrow> t = u"
  by (simp add: text_body_def)

lemma answers_lookup:
  "t \<in> set ts \<Longrightarrow> loads (answers ts) (text_body t) = Inr (text_event t)"
  by (induction ts) (auto simp: answers_def scripted_def loads_table_def text_body_inject)

lemma make_request_answer:
  assumes "t \<in> set ts"
  shows "make_request (answers ts) path method data tmo (ok (text_body t) # rest)
           = (Inr (200, text_event t), rest)"
  using answers_lookup [OF assms]
  by (simp add: make_request_def parse_body_def urlopen_answers text_body_nonempty ok_def)

lemma run_turn_answer:
  assumes "t \<in> set ts"
  shows "run_turn (answers ts) sid msg n (ok (text_body t) # rest)
           = (Inr (JStr (take 150 t)), rest)"
  by (simp add: run_turn_def io_bind_def io_pure_def make_request_answer [OF assms]
      text_event_def py_index_def position_def py_get_def py_slice_def)

lemma req_scripted:
  "map_of tbl body = Some v \<Longrightarrow>
   req (scripted tbl) path method data (ok body # rest) = (Inr v, rest)"
  by (simp add: req_def scripted_def ok_def loads_table_def)

lemma thread_table_lookups:
  "map_of thread_table ''{}'' = Some (JObj [])"
  "map_of thread_table (id_body ''thread_A'') = Some (id_value ''thread_A'')"
  "map_of thread_table (id_body ''thread_B'') = Some (id_value ''thread_B'')"
  "map_of thread_table (messages_body ''150'') = Some (messages_value ''150'')"
  "map_of thread_table (messages_body ''White'') = Some (messages_value ''White'')"
  "map_of thread_table (messages_body ''300'') = Some (messages_value ''300'')"
  "map_of thread_table (messages_body ''Green'') = Some (messages_value ''Green'')"
  by (simp_all add: thread_table_def id_body_def messages_body_def)

lemma last_value_messages: "last_value (messages_value t) = Inr (JStr t)"
  by (simp add: last_value_def messages_value_def py_item_def py_index_def position_def)

lemma new_thread_scripted:
  "map_of tbl (id_body i) = Some (id_value i) \<Longrightarrow>
   new_thread (scripted tbl) (ok (id_body i) # rest) = (Inr (id_value i), rest)"
  by (simp add: new_thread_def io_bind_def io_pure_def req_scripted id_value_def
      py_item_def py_slice_def)

lemma exchange_scripted:
  "map_of tbl ''{}'' = Some (JObj []) \<Longrightarrow>
   map_of tbl (messages_body t) = Some (messages_value t) \<Longrightarrow>
   exchange (scripted tbl) (id_value i) q
       (ok ''{}'' # ok ''{}'' # ok (messages_body t) # rest)
     = (Inr (messages_value t), rest)"
  by (simp add: exchange_def io_bind_def io_pure_def req_scripted thread_path_def
      id_value_def py_item_def last_value_messages py_slice_def)

section \<open>Properties of test_adk.py\<close>

lemma report_evaluates:
  "sum_bind (py_get event i1 JNull) (\<lambda>_.
   sum_bind (py_get event i2 JNull) (\<lambda>_.
   sum_bind (py_get event i3 JNull) (\<lambda>_.
   sum_bind (py_get event ''content'' (JObj [])) (\<lambda>content.
   sum_bind (py_get content ''parts'' (JList [])) (\<lambda>parts.
   sum_bind (if truthy parts then
               sum_bind (py_index parts 0) (\<lambda>part.
               sum_bind (py_get part ''text'' (JStr [])) (\<lambda>text.
               sum_bind (py_slice text 200) (\<lambda>_. Inr ())))
             else Inr ()) (\<lambda>_.
   Inr True)))))) = Inr True \<longleftrightarrow> event_shown event"
proof (cases "get_or event ''content'' (JObj [])")
  case None
  then have "\<And>k d. get_or event k d = None"
    by (cases event) (simp_all add: get_or_def)
  then show ?thesis
    by (simp add: sum_bind_eq_Inr py_get_eq_Inr event_shown_def)
next
  case (Some content)
  then have ev: "\<And>k d. \<exists>v. get_or event k d = Some v"
    by (cases event) (simp_all add: get_or_def)
  show ?thesis
  proof (cases "get_or content ''parts'' (JList [])")
    case None
    with Some ev show ?thesis
      by (simp add: sum_bind_eq_Inr py_get_eq_Inr event_shown_def)
  next
    case parts: (Some parts)
    show ?thesis
    proof (cases "truthy parts")
      case False
      with Some parts ev show ?thesis
        by (simp add: sum_bind_eq_Inr py_get_eq_Inr event_shown_def)
    next
      case True
      have "(\<exists>u. sum_bind (py_index parts 0) (\<lambda>part.
               sum_bind (py_get part ''text'' (JStr [])) (\<lambda>text.
               sum_bind (py_slice text 200) (\<lambda>_. Inr ()))) = Inr u)
            \<longleftrightarrow> (\<exists>text. first_text parts = Some text \<and> sliceable text)"
        using first_part_text [of parts] py_slice_eq_Inr [of _ 200]
        by (simp add: sum_bind_eq_Inr) blast
      with True Some parts ev show ?thesis
        by (simp add: sum_bind_eq_Inr py_get_eq_Inr event_shown_def split: option.splits)
    qed
  qed
qed

text \<open>
  C4, as the code has it. \<^verbatim>\<open>test_run\<close> returns \<^verbatim>\<open>True\<close> exactly when the answer to its
  POST \<^verbatim>\<open>/run\<close> request is status 200 with a list that is not empty and whose first
  element can be printed. The number of events and the text of the answer are not
  examined.
\<close>

theorem test_run_verdict:
  "fst (test_run E s) = Inr True \<longleftrightarrow>
     (\<exists>event rest.
        fst (make_request E ''/run'' ''POST''
               (Some (run_payload ''vscode-lm-proxy'' ''python-test-user'' ''python-test-session''
                        ''What is 2+2? Answer with just the number.'')) 120 s)
          = Inr (200, JList (event # rest))
        \<and> event_shown event)"
proof -
  obtain r s' where mr: "make_request E ''/run'' ''POST''
               (Some (run_payload ''vscode-lm-proxy'' ''python-test-user'' ''python-test-session''
                        ''What is 2+2? Answer with just the number.'')) 120 s = (r, s')"
    by (cases "make_request E ''/run'' ''POST''
               (Some (run_payload ''vscode-lm-proxy'' ''python-test-user'' ''python-test-session''
                        ''What is 2+2? Answer with just the number.'')) 120 s") blast
  show ?thesis
  proof (cases r)
    case (Inl e)
    with mr show ?thesis by (simp add: test_run_def io_bind_def)
  next
    case (Inr se)
    obtain status events where se: "se = (status, events)" by (cases se) blast
    show ?thesis
    proof (cases "status = 200 \<and> nonempty_list events")
      case False
      with mr Inr se show ?thesis
        by (auto simp: test_run_def io_bind_def io_pure_def)
    next
      case True
      then obtain event rest where ev: "events = JList (event # rest)"
        by (auto simp: nonempty_list_iff)
      from True mr Inr se ev show ?thesis
        using report_evaluates [of event "''id''" "''invocation_id''" "''author''"]
        by (simp add: test_run_def io_bind_def io_pure_def py_index_first)
    qed
  qed
qed

theorem test_run_verdict_witness:
  "fst (make_request (answers [''4'']) ''/run'' ''POST''
          (Some (run_payload ''vscode-lm-proxy'' ''python-test-user'' ''python-test-session''
                   ''What is 2+2? Answer with just the number.'')) 120 (replies [''4'']))
     = Inr (200, text_event ''4'')
   \<and> event_shown (JObj [(''content'', JObj [(''parts'', JList [JObj [(''text'', JStr ''4'')]])])])
   \<and> fst (test_run (answers [''4'']) (replies [''4''])) = Inr True"
  using test_run_verdict [of "answers [''4'']" "replies [''4'']"]
  by (simp add: replies_def make_request_answer text_event_def event_shown_def get_or_def
      first_text_def)

text \<open>
  C4 as stated fails: the answer \<^verbatim>\<open>[{}, {}]\<close> with status 200 has two events and no
  text, and \<^verbatim>\<open>test_run\<close> returns \<^verbatim>\<open>True\<close>.
\<close>

theorem test_run_passes_without_answer:
  "test_run (scripted [(''[{}, {}]'', JList [JObj [], JObj []])]) [ok ''[{}, {}]'']
     = (Inr True, [])"
  by (simp add: test_run_def io_bind_def io_pure_def make_request_def scripted_def ok_def
      loads_table_def parse_body_def py_index_def position_def py_get_def build_request_def)

section \<open>Properties of the isolation tests\<close>

lemma isolation_check_text:
  "isolation_check (JStr a2) (JStr b1) (JStr b2)
     = Inr ((contains ''30'' a2 \<or> contains ''60'' a2)
            \<and> (contains ''blue'' (map lower_char b1) \<or> contains ''green'' (map lower_char b2)))"
  by (simp add: isolation_check_def py_in_def py_lower_def)

lemma thread_check_text:
  assumes "last_value msgs1 = Inr (JStr x)" and "last_value msgs2 = Inr (JStr y)"
  shows "thread_check msgs1 msgs2
     = Inr ((contains ''300'' (map lower_char x) \<or> contains ''three hundred'' (map lower_char x))
            \<and> contains ''green'' (map lower_char y))"
  using assms by (simp add: thread_check_def py_in_def py_lower_def)

text \<open>
  C1, as the code has it. When the six turns return texts, \<^verbatim>\<open>test_session_isolation\<close>
  passes exactly when the second answer of session A contains \<^verbatim>\<open>30\<close> or \<^verbatim>\<open>60\<close>, and
  the first answer of session B contains \<^verbatim>\<open>blue\<close> or its second answer contains
  \<^verbatim>\<open>green\<close> (in any letter case). When its requests succeed and the last messages are
  texts, the thread isolation script reports isolation exactly when the last message
  of thread A contains \<^verbatim>\<open>300\<close> or \<^verbatim>\<open>three hundred\<close> and the last message of thread B
  contains \<^verbatim>\<open>green\<close>. Both conditions say that each conversation kept its own
  context; neither says what the answers of B must not contain.
\<close>

theorem isolation_verdicts:
  assumes "run_turn E (''session_A_'' @ show_nat ra)
             ''What is 10 + 20? Just give the number.'' 1 s0 = (Inr (JStr a1), s1)"
    and "run_turn E (''session_B_'' @ show_nat rb)
             ''What color is the sky on a clear day? One word.'' 1 s1 = (Inr (JStr b1), s2)"
    and "run_turn E (''session_A_'' @ show_nat ra)
             ''Double that result.'' 2 s2 = (Inr (JStr a2), s3)"
    and "run_turn E (''session_B_'' @ show_nat rb)
             ''And what about grass? One word.'' 2 s3 = (Inr (JStr b2), s4)"
    and "run_turn E (''session_A_'' @ show_nat ra)
             ''What was the original number before doubling?'' 3 s4 = (Inr (JStr a3), s5)"
    and "run_turn E (''session_B_'' @ show_nat rb)
             ''What was the first color I asked about?'' 3 s5 = (Inr (JStr b3), s6)"
    and "new_thread F t0 = (Inr th1, t1)"
    and "exchange F th1 ''What is 100 + 50?'' t1 = (Inr m1, t2)"
    and "new_thread F t2 = (Inr th2, t3)"
    and "exchange F th2 ''What color is snow?'' t3 = (Inr m2, t4)"
    and "exchange F th1 ''Double it'' t4 = (Inr m3, t5)"
    and "exchange F th2 ''And grass?'' t5 = (Inr m4, t6)"
    and "last_value m3 = Inr (JStr x)"
    and "last_value m4 = Inr (JStr y)"
  shows "test_session_isolation E ra rb s0
           = (Inr ((contains ''30'' a2 \<or> contains ''60'' a2)
                   \<and> (contains ''blue'' (map lower_char b1)
                        \<or> contains ''green'' (map lower_char b2))), s6)
       \<and> thread_isolation F t0
           = (Inr ((contains ''300'' (map lower_char x)
                      \<or> contains ''three hundred'' (map lower_char x))
                   \<and> contains ''green'' (map lower_char y)), t6)"
  using assms
  by (simp add: test_session_isolation_def thread_isolation_def Let_def io_bind_Inr io_pure_def
      isolation_check_text thread_check_text del: show_nat.simps)

theorem isolation_verdicts_witness:
  "test_session_isolation (answers [''30'', ''Blue'', ''60'', ''Green'']) 1234 5678
       (replies [''30'', ''Blue'', ''60'', ''Green'', ''30'', ''Blue'']) = (Inr True, [])
   \<and> thread_isolation (scripted thread_table) thread_run = (Inr True, [])"
  using isolation_verdicts
    [where E = "answers [''30'', ''Blue'', ''60'', ''Green'']" and ra = 1234 and rb = 5678
       and ?s0.0 = "replies [''30'', ''Blue'', ''60'', ''Green'', ''30'', ''Blue'']"
       and ?s1.0 = "replies [''Blue'', ''60'', ''Green'', ''30'', ''Blue'']"
       and ?s2.0 = "replies [''60'', ''Green'', ''30'', ''Blue'']"
       and ?s3.0 = "replies [''Green'', ''30'', ''Blue'']"
       and ?s4.0 = "replies [''30'', ''Blue'']"
       and ?s5.0 = "replies [''Blue'']"
       and ?s6.0 = "[]"
       and ?a1.0 = "''30''" and ?b1.0 = "''Blue''" and ?a2.0 = "''60''"
       and ?b2.0 = "''Green''" and ?a3.0 = "''30''" and ?b3.0 = "''Blue''"
       and F = "scripted thread_table" and ?t0.0 = thread_run
       and ?th1.0 = "id_value ''thread_A''" and ?th2.0 = "id_value ''thread_B''"
       and ?m1.0 = "messages_value ''150''" and ?m2.0 = "messages_value ''White''"
       and ?m3.0 = "messages_value ''300''" and ?m4.0 = "messages_value ''Green''"
       and x = "''300''" and y = "''Green''"
       and ?t1.0 = "drop 1 thread_run" and ?t2.0 = "drop 4 thread_run"
       and ?t3.0 = "drop 5 thread_run" and ?t4.0 = "drop 8 thread_run"
       and ?t5.0 = "drop 11 thread_run" and ?t6.0 = "[]"]
  by (simp add: replies_def run_turn_answer thread_run_def new_thread_scripted
      exchange_scripted thread_table_lookups last_value_messages lower_char_def
      del: show_nat.simps)

text \<open>
  C1 as stated fails: in this run the second answer of session B repeats the sum that
  only session A was asked about, and \<^verbatim>\<open>test_session_isolation\<close> passes.
\<close>

theorem isolation_test_passes_despite_leak:
  "test_session_isolation (answers [''30'', ''blue'', ''60'', ''green, and 10 + 20 is 30''])
       1234 5678
       (replies [''30'', ''blue'', ''60'', ''green, and 10 + 20 is 30'', ''30'', ''blue''])
     = (Inr True, [])
   \<and> run_turn (answers [''30'', ''blue'', ''60'', ''green, and 10 + 20 is 30''])
        (''session_B_'' @ show_nat 5678) ''And what about grass? One word.'' 2
        (replies [''green, and 10 + 20 is 30'', ''30'', ''blue''])
     = (Inr (JStr ''green, and 10 + 20 is 30''), replies [''30'', ''blue''])
   \<and> contains ''30'' ''green, and 10 + 20 is 30''"
  by (simp add: test_session_isolation_def Let_def io_bind_def io_pure_def replies_def
      run_turn_answer isolation_check_text lower_char_def del: show_nat.simps)

section \<open>Properties of the session tests\<close>

lemma urlopen_scripted: "urlopen (scripted tbl) = replay"
  by (simp add: scripted_def)

lemma make_request_scripted:
  "map_of tbl body = Some v \<Longrightarrow> body \<noteq> [] \<Longrightarrow>
   make_request (scripted tbl) path method data tmo (Response st (Text body) # rest)
     = (Inr (st, v), rest)"
  by (simp add: make_request_def scripted_def parse_body_def loads_table_def)

lemma id_body_nonempty: "id_body i \<noteq> []"
  by (simp add: id_body_def)

lemma api_table_lookups:
  "map_of api_table ''[]'' = Some (JList [])"
  "map_of api_table ''[{}, {}, {}]'' = Some (JList [JObj [], JObj [], JObj []])"
  "map_of api_table (id_body ''s1'') = Some (id_value ''s1'')"
  "map_of api_table (id_body ''s2'') = Some (id_value ''s2'')"
  "map_of api_table (id_body ''s3'') = Some (id_value ''s3'')"
  by (simp_all add: api_table_def id_body_def)

lemma id_shown_slice:
  assumes "id_shown x"
  shows "sum_bind (py_get x ''id'' JNull) (\<lambda>session_id.
            sum_bind (py_get x ''id'' (JStr ''N/A'')) (\<lambda>shown.
            sum_bind (py_slice shown 30) (\<lambda>_. Inr session_id))) = Inr (id_of x)"
proof -
  from assms obtain k where x: "x = JObj k"
    by (cases x) (simp_all add: id_shown_def get_or_def)
  from assms x obtain v where
    "py_slice (case map_of k ''id'' of None \<Rightarrow> JStr ''N/A'' | Some v \<Rightarrow> v) 30 = Inr v"
    using py_slice_eq_Inr [of "case map_of k ''id'' of None \<Rightarrow> JStr ''N/A'' | Some v \<Rightarrow> v" 30]
    by (auto simp: id_shown_def get_or_def)
  with x show ?thesis
    by (simp add: py_get_def id_of_def get_or_def)
qed

lemma create_step:
  assumes "make_request E ''/apps/test-app/users/api-test/sessions'' ''POST'' None 120 s
             = (Inr (c, x), s')"
    and "c = 201 \<Longrightarrow> id_shown x"
  shows "create_sessions E (Suc n) acc s = create_sessions E n (acc @ created [(c, x)]) s'"
proof (cases "c = 201")
  case True
  with assms show ?thesis by (simp add: id_shown_slice created_def)
next
  case False
  with assms(1) show ?thesis by (simp add: created_def)
qed

lemma session_api_verdict:
  assumes "make_request E ''/apps/test-app/users/api-test/sessions'' ''GET'' None 120 s0
             = (Inr r0, s1)"
    and "make_request E ''/apps/test-app/users/api-test/sessions'' ''POST'' None 120 s1
             = (Inr (c1, x1), s2)"
    and "make_request E ''/apps/test-app/users/api-test/sessions'' ''POST'' None 120 s2
             = (Inr (c2, x2), s3)"
    and "make_request E ''/apps/test-app/users/api-test/sessions'' ''POST'' None 120 s3
             = (Inr (c3, x3), s4)"
    and "c1 = 201 \<Longrightarrow> id_shown x1"
    and "c2 = 201 \<Longrightarrow> id_shown x2"
    and "c3 = 201 \<Longrightarrow> id_shown x3"
    and "make_request E ''/apps/test-app/users/api-test/sessions'' ''GET'' None 120 s4
             = (Inr r1, s5)"
    and "make_request E ''/apps/test-app/users/api-test/sessions'' ''GET'' None 120
           (delete_sessions E (created [(c1, x1), (c2, x2), (c3, x3)]) s5) = (Inr r2, s6)"
  shows "test_session_api E s0 = (Inr (c1 = 201 \<and> c2 = 201 \<and> c3 = 201), s6)"
proof -
  have "create_sessions E 3 [] s1 = (Inr (created [(c1, x1), (c2, x2), (c3, x3)]), s4)"
    by (simp add: numeral_3_eq_3 create_step [OF assms(2) assms(5)]
        create_step [OF assms(3) assms(6)] create_step [OF assms(4) assms(7)] created_def
        del: create_sessions.simps(2))
  moreover have "length (created [(c1, x1), (c2, x2), (c3, x3)]) = 3
                   \<longleftrightarrow> c1 = 201 \<and> c2 = 201 \<and> c3 = 201"
    by (simp add: created_def)
  ultimately show ?thesis
    using assms(1,8,9)
    by (cases r0; cases r1; cases r2) (simp add: test_session_api_def io_bind_def io_pure_def)
qed

lemma test_sessions_verdict:
  assumes "make_request F ''/apps/test-app/users/py-user/sessions'' ''POST'' None 120 u0
             = (Inr (c, JObj k), u1)"
    and "c = 201 \<Longrightarrow>
         make_request F ''/apps/test-app/users/py-user/sessions'' ''GET'' None 120 u1
           = (Inr l, u2)"
    and "c = 201 \<Longrightarrow>
         make_request F (''/apps/test-app/users/py-user/sessions/'' @ py_str F (id_of (JObj k)))
             ''GET'' None 120 u2 = (Inr g, u3)"
    and "c = 201 \<Longrightarrow>
         urlopen F (delete_request
            (BASE_URL @ ''/apps/test-app/users/py-user/sessions/'' @ py_str F (id_of (JObj k))))
             u3 = (d, u4)"
    and "c = 201 \<Longrightarrow> completed d"
  shows "fst (test_sessions F u0) = Inr (c = 201 \<and> deleted d)"
proof (cases "c = 201")
  case False
  with assms(1) show ?thesis
    by (simp add: test_sessions_def io_bind_def io_pure_def py_get_def)
next
  case True
  obtain a b where l: "l = (a, b)" by (cases l) blast
  obtain a' b' where g: "g = (a', b')" by (cases g) blast
  have i: "(case map_of k ''id'' of None \<Rightarrow> JNull | Some v \<Rightarrow> v) = id_of (JObj k)"
    by (simp add: id_of_def get_or_def)
  from True assms l g show ?thesis
    by (cases d rule: deleted.cases)
       (simp_all add: test_sessions_def io_bind_def io_pure_def py_get_def i)
qed

lemma make_request_refused:
  "make_request (scripted tbl) path method data tmo [] = (Inr (0, error_obj refused), [])"
  by (simp add: make_request_def scripted_def refused_def)

text \<open>
  C7, as the code has it. \<^verbatim>\<open>test_session_api\<close>: when none of its requests raises and
  each creation answered with status 201 returns a dictionary whose id can be printed
  (a text, or no id), the test passes exactly when each of its three creation calls
  returned status 201, whatever a creation with another status returns; what the three
  lists report and how the DELETE calls end is not examined. \<^verbatim>\<open>test_sessions\<close> of
  test_adk.py: when the creation returns a dictionary and, after a status 201, the list
  and the get do not raise and the DELETE call ends with a response or with
  \<^verbatim>\<open>HTTPError\<close>, the test passes exactly when the creation returned status 201 and the
  DELETE call returned a response (any 2xx status) or raised \<^verbatim>\<open>HTTPError\<close> with code 204;
  what the list reports is not examined.
\<close>

theorem session_test_verdicts:
  assumes "make_request E ''/apps/test-app/users/api-test/sessions'' ''GET'' None 120 s0
             = (Inr r0, s1)"
    and "make_request E ''/apps/test-app/users/api-test/sessions'' ''POST'' None 120 s1
             = (Inr (c1, x1), s2)"
    and "make_request E ''/apps/test-app/users/api-test/sessions'' ''POST'' None 120 s2
             = (Inr (c2, x2), s3)"
    and "make_request E ''/apps/test-app/users/api-test/sessions'' ''POST'' None 120 s3
             = (Inr (c3, x3), s4)"
    and "c1 = 201 \<Longrightarrow> id_shown x1"
    and "c2 = 201 \<Longrightarrow> id_shown x2"
    and "c3 = 201 \<Longrightarrow> id_shown x3"
    and "make_request E ''/apps/test-app/users/api-test/sessions'' ''GET'' None 120 s4
             = (Inr r1, s5)"
    and "make_request E ''/apps/test-app/users/api-test/sessions'' ''GET'' None 120
           (delete_sessions E (created [(c1, x1), (c2, x2), (c3, x3)]) s5) = (Inr r2, s6)"
    and "make_request F ''/apps/test-app/users/py-user/sessions'' ''POST'' None 120 u0
             = (Inr (c, JObj k), u1)"
    and "c = 201 \<Longrightarrow>
         make_request F ''/apps/test-app/users/py-user/sessions'' ''GET'' None 120 u1
           = (Inr l, u2)"
    and "c = 201 \<Longrightarrow>
         make_request F (''/apps/test-app/users/py-user/sessions/'' @ py_str F (id_of (JObj k)))
             ''GET'' None 120 u2 = (Inr g, u3)"
    and "c = 201 \<Longrightarrow>
         urlopen F (delete_request
            (BASE_URL @ ''/apps/test-app/users/py-user/sessions/'' @ py_str F (id_of (JObj k))))
             u3 = (d, u4)"
    and "c = 201 \<Longrightarrow> completed d"
  shows "test_session_api E s0 = (Inr (c1 = 201 \<and> c2 = 201 \<and> c3 = 201), s6)
       \<and> fst (test_sessions F u0) = Inr (c = 201 \<and> deleted d)"
  using session_api_verdict [OF assms(1-9)] test_sessions_verdict [OF assms(10-14)]
  by simp

theorem session_test_verdicts_witness:
  "test_session_api (scripted api_table) api_run = (Inr True, [])
   \<and> fst (test_sessions (scripted api_table) adk_run) = Inr True
   \<and> test_session_api (scripted api_table) [] = (Inr False, [])
   \<and> fst (test_sessions (scripted api_table) []) = Inr False"
  using session_test_verdicts
    [where E = "scripted api_table" and ?s0.0 = api_run
       and ?r0.0 = "(200, JList [])" and ?s1.0 = "drop 1 api_run"
       and ?c1.0 = 201 and ?x1.0 = "id_value ''s1''" and ?s2.0 = "drop 2 api_run"
       and ?c2.0 = 201 and ?x2.0 = "id_value ''s2''" and ?s3.0 = "drop 3 api_run"
       and ?c3.0 = 201 and ?x3.0 = "id_value ''s3''" and ?s4.0 = "drop 4 api_run"
       and ?r1.0 = "(200, JList [JObj [], JObj [], JObj []])" and ?s5.0 = "drop 5 api_run"
       and ?r2.0 = "(200, JList [])" and ?s6.0 = "[]"
       and F = "scripted api_table" and ?u0.0 = adk_run
       and c = 201 and k = "[(''id'', JStr ''s1'')]"
       and ?u1.0 = "drop 1 adk_run"
       and l = "(200, JList [JObj [], JObj [], JObj []])" and ?u2.0 = "drop 2 adk_run"
       and g = "(200, id_value ''s1'')" and ?u3.0 = "drop 3 adk_run"
       and d = "Response 204 (Text [])" and ?u4.0 = "[]"]
    session_test_verdicts
    [where E = "scripted api_table" and ?s0.0 = "[]" and ?s1.0 = "[]" and ?s2.0 = "[]"
       and ?s3.0 = "[]" and ?s4.0 = "[]" and ?s5.0 = "[]" and ?s6.0 = "[]"
       and ?c1.0 = 0 and ?c2.0 = 0 and ?c3.0 = 0
       and ?x1.0 = "error_obj refused" and ?x2.0 = "error_obj refused"
       and ?x3.0 = "error_obj refused"
       and ?r0.0 = "(0, error_obj refused)" and ?r1.0 = "(0, error_obj refused)"
       and ?r2.0 = "(0, error_obj refused)"
       and F = "scripted api_table" and ?u0.0 = "[]" and ?u1.0 = "[]"
       and c = 0 and k = "[(''error'', JStr (str_exn refused))]"
       and d = "Raised refused"]
  by (simp add: api_run_def adk_run_def ok_def make_request_scripted api_table_lookups
      id_body_nonempty id_value_def created_def id_of_def id_shown_def get_or_def
      urlopen_scripted make_request_refused error_obj_def)

text \<open>
  C7 as stated fails: in the run \<^const>\<open>careless_run\<close> the three creations return 201,
  the list after them reports no new entry, the three deletions return 500 and the
  last list reports three entries, not none; \<^verbatim>\<open>test_session_api\<close> passes.
\<close>

theorem session_api_passes_without_lifecycle:
  "test_session_api (scripted api_table) careless_run = (Inr True, [])
   \<and> \<not> lifecycle 0 0 3 [201, 201, 201] [500, 500, 500]"
  by (simp add: test_session_api_def careless_run_def ok_def io_bind_def io_pure_def
      numeral_3_eq_3 make_request_scripted api_table_lookups id_body_nonempty id_value_def
      py_get_def py_slice_def urlopen_scripted server_error_def lifecycle_def)

section \<open>Properties of the multi-turn test\<close>

lemma conversation_turn_refused:
  "conversation_turn (scripted tbl) sid msg [] = ([JStr (''ERROR: '' @ str_exn refused)], [])"
  by (simp add: conversation_turn_def scripted_def)

text \<open>
  C6 fails on the code. With the server down every request raises, each round appends
  the text \<^verbatim>\<open>ERROR: ...\<close> to \<^verbatim>\<open>responses\<close>, the list has as many entries as there are
  messages, and \<^verbatim>\<open>test_multi_turn\<close> passes with four responses that are all errors.
\<close>

theorem multi_turn_passes_when_server_is_down:
  "run_conversation (scripted []) ident multi_turn_messages []
     = (replicate 4 (JStr ''ERROR: <urlopen error [Errno 111] Connection refused>''), [])
   \<and> test_multi_turn (scripted []) ident [] = (True, [])"
  by (simp add: test_multi_turn_def run_conversation_def multi_turn_messages_def
      conversation_turn_refused refused_def numeral_eq_Suc del: show_nat.simps)

section \<open>Properties of the streaming consumers\<close>

lemma consume_late_stream:
  "consume (scripted [(''{}'', JObj [])]) (reads (Text late_stream)) [] (0, JStr [])
     = (1, JStr [])"
  by code_simp

lemma test_sse_late_stream:
  "test_sse_streaming (scripted [(''{}'', JObj [])]) [ok late_stream] = (Inr True, [])"
  by code_simp

lemma print_stream_late: "print_stream [''data: [DONE]'', ''data: {}''] = []"
  by code_simp

text \<open>
  A character of two bytes that a read cuts in the middle: the whole decodes, its first
  byte alone does not, and the loop ends at that read.
\<close>

lemma cut_character_does_not_decode:
  "utf8 [CHR 0xC3, CHR 0xA9] \<and> \<not> utf8 [CHR 0xC3]
   \<and> consume E [[CHR 0xC3], [CHR 0xA9]] [] (0, JStr []) = (0, JStr [])"
  by (simp add: byte_def continuation_def)

text \<open>
  The loop of \<^verbatim>\<open>send_with_image_streaming\<close> stops at the sentinel: what follows it in
  the stream does not change what is printed.
\<close>

lemma print_stream_stops:
  "print_stream (before @ ''data: [DONE]'' # after)
     = print_stream (before @ [''data: [DONE]''])"
  by (induction before) (simp_all add: Let_def)

text \<open>
  C5 fails on \<^verbatim>\<open>test_sse_streaming\<close>. On the stream \<^const>\<open>late_stream\<close> the loop meets
  \<^verbatim>\<open>[DONE]\<close> first and goes on: the event after the sentinel is decoded and counted,
  \<^verbatim>\<open>chunk_count\<close> ends at 1 and the test returns \<^verbatim>\<open>True\<close>. On the same two lines the
  loop of \<^verbatim>\<open>send_with_image_streaming\<close> prints nothing.
\<close>

theorem sse_consumes_after_done:
  "consume (scripted [(''{}'', JObj [])]) (reads (Text late_stream)) [] (0, JStr [])
     = (1, JStr [])
   \<and> test_sse_streaming (scripted [(''{}'', JObj [])]) [ok late_stream] = (Inr True, [])
   \<and> print_stream [''data: [DONE]'', ''data: {}''] = []"
  using consume_late_stream test_sse_late_stream print_stream_late by blast

section \<open>Properties of the score of the loop agent\<close>

lemma score_of_42_points:
  "py_int latin1 (filter (is_digit latin1) (take 5 (codes ''42 points''))) = Some 42"
  by code_simp

lemma digits_of_7_squared: "filter (is_digit latin1) (take 5 [55, 178]) = [55, 178]"
  by code_simp

lemma score_of_7_squared: "py_int latin1 [55, 178] = None"
  by code_simp

lemma digits_of_Score_8: "filter (is_digit latin1) (take 5 (codes ''Score: 8'')) = []"
  by code_simp

text \<open>
  C10. For every response text, and whatever the character database says, the score is
  an integer from 1 to 10: when \<^verbatim>\<open>int\<close> parses the digit characters among the first
  five characters, the score is the parsed number clamped to that range; when it
  raises, as it does when there is no digit character, the score is 5.
\<close>

theorem score_in_range:
  "1 \<le> extract_score U r \<and> extract_score U r \<le> 10
   \<and> (\<forall>n. py_int U (filter (is_digit U) (take 5 r)) = Some n
          \<longrightarrow> extract_score U r = min (max n 1) 10)
   \<and> (py_int U (filter (is_digit U) (take 5 r)) = None \<longrightarrow> extract_score U r = 5)
   \<and> (filter (is_digit U) (take 5 r) = [] \<longrightarrow> extract_score U r = 5)"
  by (auto simp: extract_score_def py_int_def split: option.splits)

theorem score_in_range_witness:
  "py_int latin1 (filter (is_digit latin1) (take 5 (codes ''42 points''))) = Some 42
   \<and> extract_score latin1 (codes ''42 points'') = 10
   \<and> py_int latin1 (filter (is_digit latin1) (take 5 [55, 178])) = None
   \<and> extract_score latin1 [55, 178] = 5
   \<and> filter (is_digit latin1) (take 5 (codes ''Score: 8'')) = []
   \<and> extract_score latin1 (codes ''Score: 8'') = 5"
  using score_in_range [of latin1 "codes ''42 points''"] score_in_range [of latin1 "[55, 178]"]
    score_in_range [of latin1 "codes ''Score: 8''"]
  by (simp only: score_of_42_points digits_of_7_squared score_of_7_squared digits_of_Score_8)
     simp

end
